theory Spec2Isabelle
  imports Complex_Main "HOL-Library.AList" "HOL-Library.Sublist"
begin

section \<open>Shared conventions\<close>

text \<open>
  A JavaScript exception is a value: \<open>Error m\<close> is an \<^verbatim>\<open>Error\<close> object whose
  \<^verbatim>\<open>message\<close> is \<open>m\<close>. A function that may throw returns \<open>js_error + 'a\<close>, with
  \<open>Inl\<close> for the thrown error. A promise that never settles is the value \<open>None\<close> of
  an \<open>option\<close>.
\<close>

datatype js_error = Error string

fun message :: "js_error \<Rightarrow> string" where
  "message (Error m) = m"

section \<open>The bounded concurrency gate (class Semaphore of downloader.js)\<close>

text \<open>
  The class keeps three fields: \<^verbatim>\<open>max\<close>, \<^verbatim>\<open>current\<close> and \<^verbatim>\<open>queue\<close>. A queue entry is
  the \<^verbatim>\<open>resolve\<close> function of one suspended \<^verbatim>\<open>acquire\<close> call; the model names it
  by a value of type \<open>'w\<close> that identifies the suspended caller. The capacity and
  the holder count are integers (\<^verbatim>\<open>current\<close> is decremented without a guard, so
  it may become negative).
\<close>

record 'w semaphore =
  smax :: int
  current :: int
  queue :: "'w list"

text \<open>
  The constructor stores its argument and has no \<^verbatim>\<open>throw\<close> statement, so the
  model returns on the right of the sum for every argument.
\<close>

definition Semaphore :: "int \<Rightarrow> js_error + 'w semaphore" where
  "Semaphore m = Inr \<lparr>smax = m, current = 0, queue = []\<rparr>"

text \<open>
  \<^verbatim>\<open>acquire()\<close>: the boolean is \<open>True\<close> when the call returned without
  suspending, \<open>False\<close> when the caller was appended to the queue.
\<close>

definition acquire :: "'w \<Rightarrow> 'w semaphore \<Rightarrow> bool \<times> 'w semaphore" where
  "acquire w s =
     (if current s < smax s then (True, s\<lparr>current := current s + 1\<rparr>)
      else (False, s\<lparr>queue := queue s @ [w]\<rparr>))"

text \<open>
  \<^verbatim>\<open>release()\<close>: the first component is the suspended caller that was resumed
  (the result of \<^verbatim>\<open>queue.shift()\<close>), if any.
\<close>

definition release :: "'w semaphore \<Rightarrow> 'w option \<times> 'w semaphore" where
  "release s =
     (let s1 = s\<lparr>current := current s - 1\<rparr> in
      case queue s1 of
        [] \<Rightarrow> (None, s1)
      | w # ws \<Rightarrow> (Some w, s1\<lparr>current := current s1 + 1, queue := ws\<rparr>))"

subsection \<open>Traces of acquire and release\<close>

text \<open>
  A trace is a list of calls made by callers of type \<open>'w\<close>. The trace state pairs
  the semaphore with the list of holders: the callers whose \<^verbatim>\<open>acquire\<close> has
  completed (at once, or by being resumed) and who have not released yet. A
  \<open>Release\<close> by a caller that is not a holder is not paired with a completed
  acquire; the trace is then rejected (\<open>None\<close>). Each step reports what happened.
\<close>

datatype 'w gate_op = Acquire 'w | Release 'w

datatype 'w gate_event = Proceeded 'w | Suspended 'w | Released 'w "'w option"

type_synonym 'w gate_state = "'w semaphore \<times> 'w list"

fun gate_step :: "'w gate_state \<Rightarrow> 'w gate_op \<Rightarrow> ('w gate_state \<times> 'w gate_event) option" where
  "gate_step (s, hs) (Acquire w) =
     (case acquire w s of
        (True, s') \<Rightarrow> Some ((s', hs @ [w]), Proceeded w)
      | (False, s') \<Rightarrow> Some ((s', hs), Suspended w))"
| "gate_step (s, hs) (Release h) =
     (if h \<in> set hs then
        (case release s of
           (None, s') \<Rightarrow> Some ((s', remove1 h hs), Released h None)
         | (Some w, s') \<Rightarrow> Some ((s', remove1 h hs @ [w]), Released h (Some w)))
      else None)"

fun gate_run :: "'w gate_state \<Rightarrow> 'w gate_op list \<Rightarrow> ('w gate_state \<times> 'w gate_event list) option" where
  "gate_run st [] = Some (st, [])"
| "gate_run st (x # xs) =
     (case gate_step st x of
        None \<Rightarrow> None
      | Some (st', e) \<Rightarrow>
          (case gate_run st' xs of
             None \<Rightarrow> None
           | Some (st'', es) \<Rightarrow> Some (st'', e # es)))"

text \<open>The callers that were suspended, and the callers that were resumed, in order.\<close>

fun suspended_of :: "'w gate_event list \<Rightarrow> 'w list" where
  "suspended_of [] = []"
| "suspended_of (Suspended w # es) = w # suspended_of es"
| "suspended_of (_ # es) = suspended_of es"

fun resumed_of :: "'w gate_event list \<Rightarrow> 'w list" where
  "resumed_of [] = []"
| "resumed_of (Released _ (Some w) # es) = w # resumed_of es"
| "resumed_of (_ # es) = resumed_of es"

text \<open>The gate right after construction with capacity \<open>m\<close>, with no holder.\<close>

definition fresh_gate :: "int \<Rightarrow> 'w gate_state" where
  "fresh_gate m = (\<lparr>smax = m, current = 0, queue = []\<rparr>, [])"

section \<open>Progress tracking (utils/progressTracker.js)\<close>

text \<open>
  JavaScript numbers are modelled as reals: the byte counters, percentages and
  millisecond times of the tracker are ordinary magnitudes, and the model leaves
  rounding of doubles, \<^verbatim>\<open>NaN\<close> and the infinities aside. \<^verbatim>\<open>Date.now()\<close> and
  \<^verbatim>\<open>new Date().toISOString()\<close> read the clock; the model takes what they return
  as arguments \<open>now\<close> and \<open>stamp\<close>.
\<close>

text \<open>
  The progress object that \<^verbatim>\<open>downloadSingle\<close> hands to \<^verbatim>\<open>updateProgress\<close>, and the
  enhanced object that \<^verbatim>\<open>updateProgress\<close> builds from it by spreading it and adding
  four fields.
\<close>

record BasicProgress =
  p_url :: string
  p_filename :: string
  downloadedBytes :: real
  totalBytes :: real
  percentage :: real
  speed :: real

record ProgressSample = BasicProgress +
  timestamp :: string
  elapsedTime :: real
  estimatedTimeRemaining :: "real option"
  averageSpeed :: real

record ProgressTracker =
  progressHistory :: "ProgressSample list"
  startTime :: "real option"
  lastUpdateTime :: "real option"

text \<open>A time field is \<^verbatim>\<open>null\<close> before \<^verbatim>\<open>start()\<close>; in a subtraction \<^verbatim>\<open>null\<close> counts as 0.\<close>

fun num_of_time :: "real option \<Rightarrow> real" where
  "num_of_time None = 0"
| "num_of_time (Some t) = t"

definition new_ProgressTracker :: ProgressTracker where
  "new_ProgressTracker = \<lparr>progressHistory = [], startTime = None, lastUpdateTime = None\<rparr>"

definition start :: "real \<Rightarrow> ProgressTracker \<Rightarrow> ProgressTracker" where
  "start now tr = tr\<lparr>startTime := Some now, lastUpdateTime := Some now, progressHistory := []\<rparr>"

text \<open>\<^verbatim>\<open>calculateETA\<close>: \<open>None\<close> is the \<^verbatim>\<open>null\<close> returned when the percentage is not positive.\<close>

definition calculateETA :: "real \<Rightarrow> real \<Rightarrow> real option" where
  "calculateETA percentage' elapsedTime' =
     (if percentage' \<le> 0 then None
      else let totalEstimatedTime = (elapsedTime' / percentage') * 100
           in Some (max 0 (totalEstimatedTime - elapsedTime')))"

definition calculateAverageSpeed :: "real \<Rightarrow> real \<Rightarrow> real" where
  "calculateAverageSpeed downloadedBytes' elapsedTime' =
     (if elapsedTime' \<le> 0 then 0 else (downloadedBytes' / elapsedTime') * 1000)"

text \<open>
  \<^verbatim>\<open>updateProgress\<close> returns the enhanced progress and appends it to the history.
\<close>

definition updateProgress ::
  "real \<Rightarrow> string \<Rightarrow> BasicProgress \<Rightarrow> ProgressTracker \<Rightarrow> ProgressSample \<times> ProgressTracker" where
  "updateProgress now stamp progress tr =
     (let totalTime = now - num_of_time (startTime tr);
          enhancedProgress =
            \<lparr>p_url = p_url progress, p_filename = p_filename progress,
             downloadedBytes = downloadedBytes progress, totalBytes = totalBytes progress,
             percentage = percentage progress, speed = speed progress,
             timestamp = stamp,
             elapsedTime = totalTime,
             estimatedTimeRemaining = calculateETA (percentage progress) totalTime,
             averageSpeed = calculateAverageSpeed (downloadedBytes progress) totalTime\<rparr>
      in (enhancedProgress,
          tr\<lparr>progressHistory := progressHistory tr @ [enhancedProgress],
             lastUpdateTime := Some now\<rparr>))"

text \<open>
  The object returned by \<^verbatim>\<open>getSummary\<close>. The summary of an empty history has no
  \<^verbatim>\<open>finalPercentage\<close> key (\<open>None\<close>). The field \<open>sum_averageSpeed\<close> is the key
  \<^verbatim>\<open>averageSpeed\<close> of the summary.
\<close>

record Summary =
  totalTime :: real
  sum_averageSpeed :: real
  peakSpeed :: real
  progressUpdates :: nat
  finalPercentage :: "real option"

definition getSummary :: "ProgressTracker \<Rightarrow> Summary" where
  "getSummary tr =
     (if length (progressHistory tr) = 0 then
        \<lparr>totalTime = 0, sum_averageSpeed = 0, peakSpeed = 0, progressUpdates = 0,
         finalPercentage = None\<rparr>
      else
        let lastProgress = progressHistory tr ! (length (progressHistory tr) - 1);
            speeds = map speed (filter (\<lambda>p. speed p > 0) (progressHistory tr))
        in \<lparr>totalTime = elapsedTime lastProgress,
            sum_averageSpeed = averageSpeed lastProgress,
            peakSpeed = (case speeds of [] \<Rightarrow> 0 | x # xs \<Rightarrow> fold max xs x),
            progressUpdates = length (progressHistory tr),
            finalPercentage = Some (percentage lastProgress)\<rparr>)"

subsection \<open>The batch tracker\<close>

text \<open>
  \<^verbatim>\<open>activeTrackers\<close> is a JavaScript \<^verbatim>\<open>Map\<close>, which keeps its keys in insertion order:
  an association list, where \<^verbatim>\<open>set\<close> overwrites the value of a key that is present
  (in place) and appends a new key otherwise (\<open>AList.update\<close>), and \<^verbatim>\<open>delete\<close>
  removes the key (\<open>AList.delete\<close>). \<^verbatim>\<open>completedTrackers\<close> is an array of
  \<^verbatim>\<open>{itemId, summary}\<close> objects.
\<close>

record 'id BatchProgressTracker =
  totalItems :: nat
  completedItems :: nat
  activeTrackers :: "('id \<times> ProgressTracker) list"
  completedTrackers :: "('id \<times> Summary) list"
  batchStartTime :: real

definition new_BatchProgressTracker :: "real \<Rightarrow> nat \<Rightarrow> 'id BatchProgressTracker" where
  "new_BatchProgressTracker now totalItems' =
     \<lparr>totalItems = totalItems', completedItems = 0, activeTrackers = [],
      completedTrackers = [], batchStartTime = now\<rparr>"

text \<open>
  \<^verbatim>\<open>createItemTracker\<close> has no \<^verbatim>\<open>throw\<close> statement and calls nothing that throws:
  it returns for every argument, the new tracker together with the updated batch
  tracker. The tracker stored in the map and the tracker returned are one object,
  so the \<^verbatim>\<open>start()\<close> that follows the \<^verbatim>\<open>set\<close> is seen through the map as well.
\<close>

definition createItemTracker ::
  "real \<Rightarrow> 'id \<Rightarrow> 'id BatchProgressTracker \<Rightarrow> ProgressTracker \<times> 'id BatchProgressTracker" where
  "createItemTracker now itemId bt =
     (let tracker = start now new_ProgressTracker
      in (tracker, bt\<lparr>activeTrackers := AList.update itemId tracker (activeTrackers bt)\<rparr>))"

definition completeItem :: "'id \<Rightarrow> 'id BatchProgressTracker \<Rightarrow> 'id BatchProgressTracker" where
  "completeItem itemId bt =
     (case map_of (activeTrackers bt) itemId of
        None \<Rightarrow> bt
      | Some tracker \<Rightarrow>
          bt\<lparr>completedTrackers := completedTrackers bt @ [(itemId, getSummary tracker)],
             activeTrackers := AList.delete itemId (activeTrackers bt),
             completedItems := completedItems bt + 1\<rparr>)"

definition calculateBatchETA :: "real \<Rightarrow> real \<Rightarrow> real option" where
  "calculateBatchETA percentage' elapsedTime' =
     (if percentage' \<le> 0 then None
      else let totalEstimatedTime = (elapsedTime' / percentage') * 100
           in Some (max 0 (totalEstimatedTime - elapsedTime')))"

section \<open>Options, platform functions and JavaScript conventions\<close>

text \<open>
  An options object is a bag of optional keys; each function destructures the keys
  it needs. One record holds every key the source reads, \<open>None\<close> standing for a key
  that is \<^verbatim>\<open>undefined\<close> or \<^verbatim>\<open>null\<close>. The callbacks \<^verbatim>\<open>onProgress\<close> and
  \<^verbatim>\<open>onBatchProgress\<close> are not fields: the model returns what would be passed to
  them.
\<close>

record options =
  savePath :: "string option"
  filename :: "string option"
  format :: "string option"
  compress :: "bool option"
  maxWidth :: "real option"
  maxHeight :: "real option"
  quality :: "real option"
  concurrency :: "int option"

definition no_options :: options where
  "no_options = \<lparr>savePath = None, filename = None, format = None, compress = None,
     maxWidth = None, maxHeight = None, quality = None, concurrency = None\<rparr>"

text \<open>
  The sizes and the quality are JavaScript numbers, which need not be whole: they
  are reals. The concurrency limit is the capacity of the semaphore, an integer.
\<close>

text \<open>
  Truthiness, as \<^verbatim>\<open>if (x)\<close> and \<^verbatim>\<open>x || y\<close> test it: a string is truthy when it is not
  empty, a number when it is not 0, a boolean when it is \<^verbatim>\<open>true\<close>; a missing value
  is falsy.
\<close>

fun truthy_str :: "string option \<Rightarrow> bool" where
  "truthy_str None = False"
| "truthy_str (Some s) = (s \<noteq> [])"

fun truthy_num :: "int option \<Rightarrow> bool" where
  "truthy_num None = False"
| "truthy_num (Some n) = (n \<noteq> 0)"

fun truthy_real :: "real option \<Rightarrow> bool" where
  "truthy_real None = False"
| "truthy_real (Some x) = (x \<noteq> 0)"

fun truthy_bool :: "bool option \<Rightarrow> bool" where
  "truthy_bool None = False"
| "truthy_bool (Some b) = b"

text \<open>\<^verbatim>\<open>a || b\<close> on strings, and a destructuring default \<^verbatim>\<open>{key = d}\<close>.\<close>

definition or_str :: "string \<Rightarrow> string \<Rightarrow> string" where
  "or_str a b = (if a \<noteq> [] then a else b)"

fun default_to :: "'a \<Rightarrow> 'a option \<Rightarrow> 'a" where
  "default_to d None = d"
| "default_to d (Some v) = v"

text \<open>
  \<^verbatim>\<open>String.prototype.toLowerCase\<close>, \<^verbatim>\<open>endsWith\<close> and \<^verbatim>\<open>includes\<close>. Lowering acts on
  the ASCII capitals. The strings the source lowers are a URL path (which the URL
  parser has percent-encoded to ASCII) and a format name that is then compared with
  ASCII literals no other character lowers into.
\<close>

definition lower_char :: "char \<Rightarrow> char" where
  "lower_char c =
     (if 65 \<le> (of_char c :: nat) \<and> (of_char c :: nat) \<le> 90
      then char_of (of_char c + (32::nat)) else c)"

definition toLowerCase :: "string \<Rightarrow> string" where
  "toLowerCase s = map lower_char s"

definition endsWith :: "string \<Rightarrow> string \<Rightarrow> bool" where
  "endsWith s e = (length e \<le> length s \<and> drop (length s - length e) s = e)"

fun includes_str :: "string \<Rightarrow> string \<Rightarrow> bool" where
  "includes_str [] n = (n = [])"
| "includes_str (c # cs) n = (take (length n) (c # cs) = n \<or> includes_str cs n)"

text \<open>\<^verbatim>\<open>Array.prototype.join\<close> on strings.\<close>

fun join :: "string \<Rightarrow> string list \<Rightarrow> string" where
  "join sep [] = []"
| "join sep [x] = x"
| "join sep (x # y # ys) = x @ sep @ join sep (y # ys)"

text \<open>
  The codec (sharp) is code of a library, not of this repository. Of a sharp
  pipeline the model keeps its configuration: the resize request, if any (always
  with \<^verbatim>\<open>fit: 'inside'\<close> and \<^verbatim>\<open>withoutEnlargement: true\<close>), and the output encoder
  with the parameters that \<^verbatim>\<open>applyFormat\<close> gives it. A configuration call is
  \<^verbatim>\<open>resize(width, height, ...)\<close> or one of the encoder methods.
\<close>

datatype tiff_compression = Lzw | Uncompressed

datatype encoder =
    Jpeg (jpeg_quality: real) (jpeg_progressive: bool)
  | Png (png_compressionLevel: int) (png_progressive: bool)
  | Webp (webp_quality: real) (webp_effort: int)
  | Gif
  | Tiff tiff_compression

datatype sharp_call = Resize "real option" "real option" | Encode encoder

record sharp_pipeline =
  resize :: "(real option \<times> real option) option"
  output_encoder :: "encoder option"

text \<open>
  The platform: the WHATWG \<^verbatim>\<open>URL\<close> parser, the functions of Node's \<^verbatim>\<open>path\<close> module,
  the properties that every object literal inherits and the parameter checks of
  sharp are not code of this repository. They are parameters of the model.
  \<^item> Of a parsed URL the source reads \<^verbatim>\<open>protocol\<close>, \<^verbatim>\<open>pathname\<close> and \<^verbatim>\<open>search\<close>;
    \<open>URL_parse\<close> is \<open>None\<close> where \<^verbatim>\<open>new URL(s)\<close> throws.
  \<^item> \<open>inherited_property k\<close> is the text that a template literal prints for the
    property that an object literal inherits under the key \<open>k\<close> (such as
    \<^verbatim>\<open>constructor\<close> or \<^verbatim>\<open>toString\<close>), and \<open>None\<close> when it inherits none.
  \<^item> \<open>sharp_rejects c\<close> is the error that sharp throws when the configuration call
    \<open>c\<close> is made (a size that is not a positive whole number, a quality outside its
    range), and \<open>None\<close> when sharp accepts the call.
\<close>

record URL =
  protocol :: string
  pathname :: string
  search :: string

record platform =
  URL_parse :: "string \<Rightarrow> URL option"
  path_join :: "string \<Rightarrow> string \<Rightarrow> string"
  path_basename :: "string \<Rightarrow> string"
  path_parse_dir :: "string \<Rightarrow> string"
  path_parse_name :: "string \<Rightarrow> string"
  path_extname :: "string \<Rightarrow> string"
  inherited_property :: "string \<Rightarrow> string option"
  sharp_rejects :: "sharp_call \<Rightarrow> js_error option"

text \<open>Sequencing of steps that may throw: the first error ends the sequence.\<close>

fun and_then :: "js_error + 'a \<Rightarrow> ('a \<Rightarrow> js_error + 'b) \<Rightarrow> js_error + 'b" where
  "and_then (Inl e) f = Inl e"
| "and_then (Inr x) f = f x"

section \<open>Image processing (processor.js)\<close>

text \<open>
  A configuration call on a pipeline: sharp checks the parameters and throws, or
  the pipeline records the request.
\<close>

definition sharp :: sharp_pipeline where
  "sharp = \<lparr>resize = None, output_encoder = None\<rparr>"

definition sharp_apply :: "platform \<Rightarrow> sharp_call \<Rightarrow> sharp_pipeline \<Rightarrow> js_error + sharp_pipeline" where
  "sharp_apply pf c processor =
     (case sharp_rejects pf c of
        Some e \<Rightarrow> Inl e
      | None \<Rightarrow>
          (case c of
             Resize width height \<Rightarrow> Inr (processor\<lparr>resize := Some (width, height)\<rparr>)
           | Encode enc \<Rightarrow> Inr (processor\<lparr>output_encoder := Some enc\<rparr>)))"

definition applyFormat ::
  "platform \<Rightarrow> sharp_pipeline \<Rightarrow> string \<Rightarrow> bool \<Rightarrow> real \<Rightarrow> js_error + sharp_pipeline" where
  "applyFormat pf processor format' compress' quality' =
     (let f = toLowerCase format' in
      if f = ''jpeg'' \<or> f = ''jpg'' then
        sharp_apply pf (Encode (Jpeg (if compress' then quality' else 95) True)) processor
      else if f = ''png'' then
        sharp_apply pf (Encode (Png (if compress' then 9 else 6) True)) processor
      else if f = ''webp'' then
        sharp_apply pf
          (Encode (Webp (if compress' then quality' else 95) (if compress' then 6 else 4)))
          processor
      else if f = ''gif'' then
        sharp_apply pf (Encode Gif) processor
      else if f = ''tiff'' then
        sharp_apply pf (Encode (Tiff (if compress' then Lzw else Uncompressed))) processor
      else Inl (Error (''Unsupported format: '' @ format')))"

text \<open>The resize step shared by \<^verbatim>\<open>createTransformer\<close> and \<^verbatim>\<open>processFile\<close>.\<close>

definition apply_resize ::
  "platform \<Rightarrow> real option \<Rightarrow> real option \<Rightarrow> sharp_pipeline \<Rightarrow> js_error + sharp_pipeline" where
  "apply_resize pf maxWidth' maxHeight' processor =
     (if truthy_real maxWidth' \<or> truthy_real maxHeight'
      then sharp_apply pf (Resize maxWidth' maxHeight') processor else Inr processor)"

definition createTransformer :: "platform \<Rightarrow> options \<Rightarrow> js_error + sharp_pipeline" where
  "createTransformer pf opts =
     (let compress' = default_to False (compress opts);
          quality' = default_to 80 (quality opts)
      in and_then (apply_resize pf (maxWidth opts) (maxHeight opts) sharp) (\<lambda>transformer.
           if truthy_str (format opts) then
             applyFormat pf transformer (default_to [] (format opts)) compress' quality'
           else if compress' then applyFormat pf transformer ''jpeg'' compress' quality'
           else Inr transformer))"

definition getFinalOutputPath :: "platform \<Rightarrow> string \<Rightarrow> string option \<Rightarrow> string" where
  "getFinalOutputPath pf originalPath format' =
     (if \<not> truthy_str format' then originalPath
      else
        let f = default_to [] format';
            extension = (if f = ''jpeg'' then ''jpg'' else f)
        in path_join pf (path_parse_dir pf originalPath)
             (path_parse_name pf originalPath @ ''.'' @ extension))"

text \<open>
  \<^verbatim>\<open>processStream\<close>. The argument \<open>write\<close> is the outcome of creating the output
  directory and running the stream pipeline through the transformer into the
  output path. Every error of the body is rethrown with a prefixed message.
\<close>

definition processing_failed :: "js_error + 'a \<Rightarrow> js_error + 'a" where
  "processing_failed r =
     (case r of
        Inl e \<Rightarrow> Inl (Error (''Image processing failed: '' @ message e))
      | Inr x \<Rightarrow> Inr x)"

definition processStream ::
  "platform \<Rightarrow> (sharp_pipeline \<Rightarrow> string \<Rightarrow> js_error + unit) \<Rightarrow> string \<Rightarrow> options
     \<Rightarrow> js_error + string" where
  "processStream pf write outputPath opts =
     processing_failed
       (and_then (createTransformer pf opts) (\<lambda>transformer.
          let finalOutputPath = getFinalOutputPath pf outputPath (format opts)
          in and_then (write transformer finalOutputPath) (\<lambda>_. Inr finalOutputPath)))"

text \<open>
  \<^verbatim>\<open>processFile\<close>. The sharp pipeline it configures is \<open>file_processor\<close>; the argument
  \<open>metadata_format\<close> is the outcome of \<^verbatim>\<open>sharp(inputPath).metadata()\<close>, of which the
  source reads \<^verbatim>\<open>format\<close>, and \<open>toFile\<close> the outcome of creating the output
  directory and saving.
\<close>

definition file_processor ::
  "platform \<Rightarrow> js_error + string \<Rightarrow> options \<Rightarrow> js_error + sharp_pipeline" where
  "file_processor pf metadata_format opts =
     (let compress' = default_to False (compress opts);
          quality' = default_to 80 (quality opts)
      in and_then (apply_resize pf (maxWidth opts) (maxHeight opts) sharp) (\<lambda>processor.
           if truthy_str (format opts) then
             applyFormat pf processor (default_to [] (format opts)) compress' quality'
           else if compress' then
             and_then metadata_format (\<lambda>originalFormat.
               applyFormat pf processor originalFormat compress' quality')
           else Inr processor))"

definition processFile ::
  "platform \<Rightarrow> (js_error + string) \<Rightarrow> (sharp_pipeline \<Rightarrow> string \<Rightarrow> js_error + unit)
     \<Rightarrow> string \<Rightarrow> options \<Rightarrow> js_error + string" where
  "processFile pf metadata_format toFile outputPath opts =
     processing_failed
       (and_then (file_processor pf metadata_format opts) (\<lambda>processor.
          let finalOutputPath = getFinalOutputPath pf outputPath (format opts)
          in and_then (toFile processor finalOutputPath) (\<lambda>_. Inr finalOutputPath)))"

section \<open>The single download (ImageDownloader.downloadSingle of downloader.js)\<close>

text \<open>
  What the network, the file system and the clock answer during one download is the
  environment of that download. Each field is the outcome of one effect of the
  source: an error on the left where the call throws or its promise rejects.
  \<^item> \<open>mkdir_result\<close>: \<^verbatim>\<open>fs.mkdir(savePath, {recursive: true})\<close> in \<^verbatim>\<open>ensureDirectory\<close>;
  \<^item> \<open>head_result\<close>: the HEAD request of \<^verbatim>\<open>getImageInfo\<close>, with the two headers it
    reads (\<open>content_length\<close> is what \<^verbatim>\<open>parseInt\<close> makes of the header, \<open>None\<close> for
    \<^verbatim>\<open>NaN\<close>);
  \<^item> \<open>date_now\<close>: \<^verbatim>\<open>Date.now()\<close> in \<^verbatim>\<open>generateFilename\<close>, as the template literal
    prints it;
  \<^item> \<open>tracker_start\<close>: \<^verbatim>\<open>Date.now()\<close> in \<^verbatim>\<open>progressTracker.start()\<close>;
  \<^item> \<open>get_progress\<close>: the progress events of the transport, each with the clock at
    the event;
  \<^item> \<open>get_result\<close>: the GET request \<^verbatim>\<open>axios(axiosConfig)\<close>;
  \<^item> \<open>transform_result\<close>: the stream pipeline of \<^verbatim>\<open>processStream\<close>, given the
    transformer and the output path;
  \<^item> \<open>save_result\<close>: the stream pipeline into the file when nothing is processed;
  \<^item> \<open>stat_result\<close>: \<^verbatim>\<open>fs.stat(finalPath)\<close>, of which the source reads \<^verbatim>\<open>size\<close>;
  \<^item> \<open>done_at\<close>: \<^verbatim>\<open>new Date().toISOString()\<close> when the result object is built.
\<close>

record head_response =
  content_type :: "string option"
  content_length :: "nat option"

record progress_event =
  loaded :: real
  total :: "real option"
  rate :: "real option"
  event_now :: real
  event_stamp :: string

record dl_env =
  mkdir_result :: "js_error + unit"
  head_result :: "js_error + head_response"
  date_now :: string
  tracker_start :: real
  get_progress :: "progress_event list"
  get_result :: "js_error + unit"
  transform_result :: "sharp_pipeline \<Rightarrow> string \<Rightarrow> js_error + unit"
  save_result :: "js_error + unit"
  stat_result :: "js_error + nat"
  done_at :: string

text \<open>
  The object \<^verbatim>\<open>downloadSingle\<close> returns. A failed download has no \<^verbatim>\<open>filePath\<close>,
  \<^verbatim>\<open>filename\<close>, \<^verbatim>\<open>size\<close> or \<^verbatim>\<open>contentType\<close>; a successful one has no \<^verbatim>\<open>error\<close>. The
  fields \<open>res_filename\<close> and \<open>res_size\<close> are the keys \<^verbatim>\<open>filename\<close> and \<^verbatim>\<open>size\<close>.
\<close>

record DownloadResult =
  success :: bool
  url :: string
  filePath :: "string option"
  res_filename :: "string option"
  res_size :: "nat option"
  contentType :: "string option"
  error :: "string option"
  downloadedAt :: string

text \<open>
  The proxy given to the constructor: absent, a URL string, or a configuration
  object. \<^verbatim>\<open>createAxiosConfig\<close> parses a string proxy with \<^verbatim>\<open>new URL\<close>, which throws
  on a malformed string. The configuration it builds is consumed by axios, whose
  outcome is part of the environment; the model keeps whether it throws.
\<close>

datatype proxy_config = ProxyUrl string | ProxyObject

definition createAxiosConfig :: "platform \<Rightarrow> proxy_config option \<Rightarrow> js_error + unit" where
  "createAxiosConfig pf proxyConfig =
     (case proxyConfig of
        None \<Rightarrow> Inr ()
      | Some (ProxyUrl s) \<Rightarrow>
          (if s = [] then Inr ()
           else case URL_parse pf s of
                  None \<Rightarrow> Inl (Error ''Invalid URL'')
                | Some proxyUrl \<Rightarrow> Inr ())
      | Some ProxyObject \<Rightarrow> Inr ())"

definition ensureDirectory :: "js_error + unit \<Rightarrow> string \<Rightarrow> js_error + unit" where
  "ensureDirectory mkdir dirPath =
     (case mkdir of
        Inl e \<Rightarrow> Inl (Error (''Failed to create directory '' @ dirPath @ '': '' @ message e))
      | Inr u \<Rightarrow> Inr u)"

text \<open>
  \<^verbatim>\<open>getImageInfo\<close> catches every error of its body, the proxy configuration
  included, and answers with the defaults.
\<close>

record image_info =
  info_contentType :: string
  info_contentLength :: nat

definition getImageInfo :: "platform \<Rightarrow> proxy_config option \<Rightarrow> dl_env \<Rightarrow> image_info" where
  "getImageInfo pf proxyConfig env =
     (case and_then (createAxiosConfig pf proxyConfig) (\<lambda>_. head_result env) of
        Inr response \<Rightarrow>
          \<lparr>info_contentType = or_str (default_to [] (content_type response)) ''image/jpeg'',
           info_contentLength = default_to 0 (content_length response)\<rparr>
      | Inl e \<Rightarrow> \<lparr>info_contentType = ''image/jpeg'', info_contentLength = 0\<rparr>)"

text \<open>
  \<^verbatim>\<open>typeMap\<close> is an object literal with four keys. The lookup
  \<^verbatim>\<open>typeMap[contentType]\<close> finds these keys, and under any other key the property
  that the literal inherits, if there is one; an inherited property is a function
  or an object, which is truthy and which the template literal prints as text.
\<close>

definition typeMap :: "string \<Rightarrow> string option" where
  "typeMap = map_of [(''image/jpeg'', ''jpg''), (''image/png'', ''png''),
     (''image/webp'', ''webp''), (''image/gif'', ''gif'')]"

definition typeMap_lookup :: "platform \<Rightarrow> string \<Rightarrow> string option" where
  "typeMap_lookup pf contentType' =
     (case typeMap contentType' of
        Some extension \<Rightarrow> Some extension
      | None \<Rightarrow> inherited_property pf contentType')"

definition generateFilename ::
  "platform \<Rightarrow> string \<Rightarrow> string \<Rightarrow> string \<Rightarrow> string option \<Rightarrow> js_error + string" where
  "generateFilename pf now_text url' contentType' format' =
     (case URL_parse pf url' of
        None \<Rightarrow> Inl (Error ''Invalid URL'')
      | Some u \<Rightarrow>
          let urlPath = pathname u;
              baseName = or_str (path_basename pf urlPath) ''image'';
              nameWithoutExt = or_str (path_parse_name pf baseName) ''image'';
              extension =
                (if truthy_str format' then
                   (let f = default_to [] format' in if f = ''jpeg'' then ''jpg'' else f)
                 else case typeMap_lookup pf contentType' of
                        Some extension' \<Rightarrow> extension'
                      | None \<Rightarrow> or_str (drop 1 (path_extname pf baseName)) ''jpg'')
          in Inr (nameWithoutExt @ ''_'' @ now_text @ ''.'' @ extension))"

text \<open>
  The \<^verbatim>\<open>onDownloadProgress\<close> handler: one transport event becomes one basic progress
  object, which the tracker enhances. \<open>progress_samples\<close> lists what is passed to
  \<^verbatim>\<open>onProgress\<close>. \<^verbatim>\<open>Math.round\<close> is \<open>round\<close>: both round a half upwards.
\<close>

definition basicProgress :: "string \<Rightarrow> string \<Rightarrow> real \<Rightarrow> progress_event \<Rightarrow> BasicProgress" where
  "basicProgress url' finalFilename totalBytes' ev =
     \<lparr>p_url = url', p_filename = finalFilename,
      downloadedBytes = loaded ev,
      totalBytes = (if truthy_real (total ev) then default_to 0 (total ev) else totalBytes'),
      percentage =
        (if truthy_real (total ev)
         then of_int (round ((loaded ev / default_to 0 (total ev)) * 100)) else 0),
      speed = (if truthy_real (rate ev) then default_to 0 (rate ev) else 0)\<rparr>"

fun progress_samples ::
  "string \<Rightarrow> string \<Rightarrow> real \<Rightarrow> progress_event list \<Rightarrow> ProgressTracker \<Rightarrow> ProgressSample list" where
  "progress_samples url' finalFilename totalBytes' [] tr = []"
| "progress_samples url' finalFilename totalBytes' (ev # evs) tr =
     (case updateProgress (event_now ev) (event_stamp ev)
             (basicProgress url' finalFilename totalBytes' ev) tr of
        (enhancedProgress, tr') \<Rightarrow>
          enhancedProgress # progress_samples url' finalFilename totalBytes' evs tr')"

text \<open>
  The body of the \<^verbatim>\<open>try\<close> block, step by step in the order of the source; its value
  is the result object of a success and the samples reported, or the error that
  reached the \<^verbatim>\<open>catch\<close>.
\<close>

definition download_try ::
  "platform \<Rightarrow> proxy_config option \<Rightarrow> dl_env \<Rightarrow> string \<Rightarrow> options
     \<Rightarrow> js_error + DownloadResult" where
  "download_try pf proxyConfig env url' opts =
     (let savePath' = default_to ''./downloads'' (savePath opts) in
      and_then (ensureDirectory (mkdir_result env) savePath') (\<lambda>_.
      let imageInfo = getImageInfo pf proxyConfig env in
      and_then
        (if truthy_str (filename opts) then Inr (default_to [] (filename opts))
         else generateFilename pf (date_now env) url' (info_contentType imageInfo) (format opts))
        (\<lambda>finalFilename.
      let filePath' = path_join pf savePath' finalFilename in
      and_then (createAxiosConfig pf proxyConfig) (\<lambda>_.
      and_then (get_result env) (\<lambda>_.
      and_then
        (if truthy_str (format opts) \<or> truthy_bool (compress opts)
            \<or> truthy_real (maxWidth opts) \<or> truthy_real (maxHeight opts)
         then processStream pf (transform_result env) filePath'
                (no_options\<lparr>format := format opts, compress := compress opts,
                   maxWidth := maxWidth opts, maxHeight := maxHeight opts\<rparr>)
         else and_then (save_result env) (\<lambda>_. Inr filePath'))
        (\<lambda>finalPath.
      and_then (stat_result env) (\<lambda>stats_size.
        Inr \<lparr>success = True, url = url', filePath = Some finalPath,
             res_filename = Some (path_basename pf finalPath),
             res_size = Some stats_size,
             contentType = Some (info_contentType imageInfo),
             error = None,
             downloadedAt = done_at env\<rparr>)))))))"

text \<open>The object built in the \<^verbatim>\<open>catch\<close> block.\<close>

definition failed_result :: "string \<Rightarrow> string \<Rightarrow> string \<Rightarrow> DownloadResult" where
  "failed_result url' error_message stamp =
     \<lparr>success = False, url = url', filePath = None, res_filename = None,
      res_size = None, contentType = None, error = Some error_message,
      downloadedAt = stamp\<rparr>"

definition downloadSingle ::
  "platform \<Rightarrow> proxy_config option \<Rightarrow> dl_env \<Rightarrow> string \<Rightarrow> options \<Rightarrow> DownloadResult" where
  "downloadSingle pf proxyConfig env url' opts =
     (case download_try pf proxyConfig env url' opts of
        Inr result \<Rightarrow> result
      | Inl e \<Rightarrow> failed_result url' (message e) (done_at env))"

text \<open>
  What \<^verbatim>\<open>downloadSingle\<close> passes to \<^verbatim>\<open>onProgress\<close> while the transport reports
  progress. The handler is installed once the file name is known; no event arrives
  otherwise.
\<close>

definition downloadSingle_progress ::
  "platform \<Rightarrow> proxy_config option \<Rightarrow> dl_env \<Rightarrow> string \<Rightarrow> options \<Rightarrow> ProgressSample list" where
  "downloadSingle_progress pf proxyConfig env url' opts =
     (let savePath' = default_to ''./downloads'' (savePath opts);
          imageInfo = getImageInfo pf proxyConfig env in
      case and_then (ensureDirectory (mkdir_result env) savePath') (\<lambda>_.
             if truthy_str (filename opts) then Inr (default_to [] (filename opts))
             else generateFilename pf (date_now env) url' (info_contentType imageInfo)
                    (format opts)) of
        Inl e \<Rightarrow> []
      | Inr finalFilename \<Rightarrow>
          (case createAxiosConfig pf proxyConfig of
             Inl e \<Rightarrow> []
           | Inr _ \<Rightarrow>
               progress_samples url' finalFilename (of_nat (info_contentLength imageInfo))
                 (get_progress env) (start (tracker_start env) new_ProgressTracker)))"

section \<open>The batch download (ImageDownloader.downloadBatch of downloader.js)\<close>

text \<open>
  \<^verbatim>\<open>results\<close> is a JavaScript array that starts empty and is written by index. A
  write beyond the end extends the array and leaves holes, which read as
  \<^verbatim>\<open>undefined\<close>: the model is a list of options, \<open>None\<close> for a hole.
\<close>

definition array_set :: "'a option list \<Rightarrow> nat \<Rightarrow> 'a \<Rightarrow> 'a option list" where
  "array_set xs i v =
     (if i < length xs then xs[i := Some v]
      else xs @ replicate (i - length xs) None @ [Some v])"

text \<open>
  The state of one call of \<^verbatim>\<open>downloadBatch\<close>: the semaphore (a suspended caller is
  named by the index of its item), the batch tracker, the items whose
  \<^verbatim>\<open>downloadSingle\<close> is in flight, and the results array. \<open>launched\<close> records the
  items in the order in which they passed the semaphore and entered the pipeline.
  The progress callbacks only observe the run; they are taken to return normally
  and are not part of the state.
\<close>

record batch_state =
  semaphore :: "nat semaphore"
  batchTracker :: "nat BatchProgressTracker"
  in_flight :: "nat list"
  results :: "DownloadResult option list"
  launched :: "nat list"

text \<open>
  The part of the callback after \<^verbatim>\<open>await semaphore.acquire()\<close> up to the call of
  \<^verbatim>\<open>downloadSingle\<close>: the item tracker is created and the download starts.
\<close>

definition start_item :: "real \<Rightarrow> nat \<Rightarrow> batch_state \<Rightarrow> batch_state" where
  "start_item now index st =
     (case createItemTracker now index (batchTracker st) of
        (itemTracker, bt') \<Rightarrow>
          st\<lparr>batchTracker := bt', in_flight := in_flight st @ [index],
             launched := launched st @ [index]\<rparr>)"

text \<open>
  \<^verbatim>\<open>urls.map\<close> calls the callback for each index in order; each call runs up to its
  \<^verbatim>\<open>await\<close>, that is, it calls \<^verbatim>\<open>acquire\<close>. A caller that is granted a slot goes on
  to \<open>start_item\<close>; the others stay suspended in the queue.
\<close>

definition enter :: "real \<Rightarrow> nat \<Rightarrow> batch_state \<Rightarrow> batch_state" where
  "enter now index st =
     (case acquire index (semaphore st) of
        (True, s') \<Rightarrow> start_item now index (st\<lparr>semaphore := s'\<rparr>)
      | (False, s') \<Rightarrow> st\<lparr>semaphore := s'\<rparr>)"

text \<open>
  The rest of the callback, run when the \<^verbatim>\<open>downloadSingle\<close> of an item settles with
  \<open>result\<close>: the item is completed in the tracker, its result is stored at its own
  index, and the \<^verbatim>\<open>finally\<close> block releases the semaphore; a caller resumed by the
  release goes on to \<open>start_item\<close>.
\<close>

definition finish :: "(nat \<Rightarrow> DownloadResult) \<Rightarrow> real \<Rightarrow> nat \<Rightarrow> batch_state \<Rightarrow> batch_state" where
  "finish result_of now index st =
     (let st1 = st\<lparr>batchTracker := completeItem index (batchTracker st),
                   results := array_set (results st) index (result_of index),
                   in_flight := remove1 index (in_flight st)\<rparr>
      in case release (semaphore st1) of
           (None, s') \<Rightarrow> st1\<lparr>semaphore := s'\<rparr>
         | (Some w, s') \<Rightarrow> start_item now w (st1\<lparr>semaphore := s'\<rparr>))"

lemma finish_decreases:
  assumes "index \<in> set (in_flight st)"
  shows "length (in_flight (finish result_of now index st))
           + length (queue (semaphore (finish result_of now index st)))
         < length (in_flight st) + length (queue (semaphore st))"
proof -
  from assms obtain n where "length (in_flight st) = Suc n" by (cases "in_flight st") auto
  with assms have "length (remove1 index (in_flight st)) = n"
    by (simp add: length_remove1)
  then show ?thesis
    using \<open>length (in_flight st) = Suc n\<close>
    by (cases "queue (semaphore st)")
       (simp_all add: finish_def release_def start_item_def createItemTracker_def Let_def)
qed

text \<open>
  The downloads in flight settle in an order that the network decides. The
  scheduler \<open>pick\<close> decides it in the model: at step \<open>t\<close> the download that settles
  next is the one at position \<open>pick t mod k\<close> among the \<open>k\<close> in flight; every order
  of completion is the run of some \<open>pick\<close>. \<open>clock t\<close> is \<^verbatim>\<open>Date.now()\<close> at step \<open>t\<close>.
  The run ends when no download is in flight. \<^verbatim>\<open>Promise.all\<close> then has resolved if
  no caller is left in the queue; a caller still suspended at that point is never
  resumed, and \<^verbatim>\<open>downloadBatch\<close> never returns.
\<close>

function run_batch ::
  "(nat \<Rightarrow> DownloadResult) \<Rightarrow> (nat \<Rightarrow> real) \<Rightarrow> (nat \<Rightarrow> nat) \<Rightarrow> nat \<Rightarrow> batch_state \<Rightarrow> batch_state" where
  "run_batch result_of clock pick t st =
     (if in_flight st = [] then st
      else run_batch result_of clock pick (Suc t)
             (finish result_of (clock (Suc t))
                (in_flight st ! (pick t mod length (in_flight st))) st))"
  by pat_completeness auto
termination
proof (relation "measure (\<lambda>(result_of, clock, pick, t, st).
                   length (in_flight st) + length (queue (semaphore st)))")
  show "wf (measure (\<lambda>(result_of, clock, pick, t, st).
                   length (in_flight st) + length (queue (semaphore st))))"
    by simp
next
  fix result_of :: "nat \<Rightarrow> DownloadResult" and clock :: "nat \<Rightarrow> real"
    and pick :: "nat \<Rightarrow> nat" and t :: nat and st :: batch_state
  assume ne: "in_flight st \<noteq> []"
  then have "in_flight st ! (pick t mod length (in_flight st)) \<in> set (in_flight st)"
    by simp
  from finish_decreases[OF this]
  show "((result_of, clock, pick, Suc t,
          finish result_of (clock (Suc t))
            (in_flight st ! (pick t mod length (in_flight st))) st),
         (result_of, clock, pick, t, st))
        \<in> measure (\<lambda>(result_of, clock, pick, t, st).
                   length (in_flight st) + length (queue (semaphore st)))"
    by simp
qed

declare run_batch.simps [simp del]

text \<open>
  \<^verbatim>\<open>downloadBatch\<close>. \<open>envs i\<close> is the environment of the download of item \<open>i\<close>. The
  options without \<^verbatim>\<open>concurrency\<close> go to every \<^verbatim>\<open>downloadSingle\<close>. \<open>batch_run\<close> is the
  state when no download is in flight any more; \<^verbatim>\<open>downloadBatch\<close> returns the results
  array if \<^verbatim>\<open>Promise.all\<close> has resolved, and never returns (\<open>None\<close>) otherwise. An
  error thrown by the constructor of the semaphore would leave \<^verbatim>\<open>downloadBatch\<close>.
\<close>

definition batch_run ::
  "platform \<Rightarrow> proxy_config option \<Rightarrow> (nat \<Rightarrow> dl_env) \<Rightarrow> (nat \<Rightarrow> real) \<Rightarrow> (nat \<Rightarrow> nat)
     \<Rightarrow> string list \<Rightarrow> options \<Rightarrow> js_error + batch_state" where
  "batch_run pf proxyConfig envs clock pick urls opts =
     (let concurrency' = default_to 3 (concurrency opts);
          downloadOptions = opts\<lparr>concurrency := None\<rparr>
      in case Semaphore concurrency' of
           Inl e \<Rightarrow> Inl e
         | Inr sem \<Rightarrow>
             let st0 = \<lparr>semaphore = sem,
                        batchTracker = new_BatchProgressTracker (clock 0) (length urls),
                        in_flight = [], results = [], launched = []\<rparr>;
                 st1 = fold (enter (clock 0)) [0..<length urls] st0
             in Inr (run_batch
                      (\<lambda>index. downloadSingle pf proxyConfig (envs index) (urls ! index)
                                 downloadOptions)
                      clock pick 0 st1))"

definition downloadBatch ::
  "platform \<Rightarrow> proxy_config option \<Rightarrow> (nat \<Rightarrow> dl_env) \<Rightarrow> (nat \<Rightarrow> real) \<Rightarrow> (nat \<Rightarrow> nat)
     \<Rightarrow> string list \<Rightarrow> options \<Rightarrow> (js_error + DownloadResult option list) option" where
  "downloadBatch pf proxyConfig envs clock pick urls opts =
     (case batch_run pf proxyConfig envs clock pick urls opts of
        Inl e \<Rightarrow> Some (Inl e)
      | Inr st \<Rightarrow> if queue (semaphore st) = [] then Some (Inr (results st)) else None)"

subsection \<open>The states of a batch\<close>

text \<open>
  The states that a batch with capacity \<open>c\<close> can reach, whatever the interleaving:
  from the state that \<^verbatim>\<open>downloadBatch\<close> builds first, a callback calls \<^verbatim>\<open>acquire\<close>
  (\<open>enter\<close>), or a download in flight settles (\<open>finish\<close>).
\<close>

inductive batch_reachable :: "(nat \<Rightarrow> DownloadResult) \<Rightarrow> int \<Rightarrow> batch_state \<Rightarrow> bool"
  for result_of :: "nat \<Rightarrow> DownloadResult" and c :: int where
  initial:
    "batch_reachable result_of c
       \<lparr>semaphore = \<lparr>smax = c, current = 0, queue = []\<rparr>, batchTracker = bt,
        in_flight = [], results = [], launched = []\<rparr>"
| entered:
    "batch_reachable result_of c st \<Longrightarrow> batch_reachable result_of c (enter now index st)"
| finished:
    "batch_reachable result_of c st \<Longrightarrow> index \<in> set (in_flight st) \<Longrightarrow>
     batch_reachable result_of c (finish result_of now index st)"

text \<open>
  For a batch of \<open>n\<close> items with capacity \<open>c\<close>: the holder count of the semaphore is
  the number of downloads in flight; a caller waits only while the gate is full;
  and every item is in flight, or waiting, or has its result stored at its index.
\<close>

definition batch_inv :: "(nat \<Rightarrow> DownloadResult) \<Rightarrow> nat \<Rightarrow> int \<Rightarrow> batch_state \<Rightarrow> bool" where
  "batch_inv result_of n c st \<longleftrightarrow>
     smax (semaphore st) = c
     \<and> current (semaphore st) = int (length (in_flight st))
     \<and> (queue (semaphore st) \<noteq> [] \<longrightarrow> c \<le> current (semaphore st))
     \<and> set (in_flight st) \<union> set (queue (semaphore st)) \<subseteq> {..<n}
     \<and> length (results st) \<le> n
     \<and> (\<forall>i<n. i \<in> set (in_flight st) \<or> i \<in> set (queue (semaphore st))
            \<or> (i < length (results st) \<and> results st ! i = Some (result_of i)))"

text \<open>While the first \<open>k\<close> callbacks have run: no result is stored yet.\<close>

definition launch_inv :: "int \<Rightarrow> nat \<Rightarrow> batch_state \<Rightarrow> bool" where
  "launch_inv c k st \<longleftrightarrow>
     smax (semaphore st) = c
     \<and> current (semaphore st) = int (length (in_flight st))
     \<and> (queue (semaphore st) \<noteq> [] \<longrightarrow> c \<le> current (semaphore st))
     \<and> set (in_flight st) \<union> set (queue (semaphore st)) = {..<k}
     \<and> results st = []"

section \<open>URL validation and option validation (utils/validator.js)\<close>

definition imageExtensions :: "string list" where
  "imageExtensions =
     [''.jpg'', ''.jpeg'', ''.png'', ''.gif'', ''.webp'', ''.bmp'', ''.tiff'', ''.svg'']"

text \<open>
  \<^verbatim>\<open>validateImageUrl\<close>. The argument is a string, so of the first test only the
  empty string is left; a URL that \<^verbatim>\<open>new URL\<close> rejects ends in the \<^verbatim>\<open>catch\<close>.
\<close>

definition hasImageQuery :: "URL \<Rightarrow> bool" where
  "hasImageQuery urlObj \<longleftrightarrow>
     includes_str (search urlObj) ''format=''
     \<or> includes_str (search urlObj) ''type=image''
     \<or> includes_str (search urlObj) ''.jpg''
     \<or> includes_str (search urlObj) ''.png''
     \<or> includes_str (search urlObj) ''.webp''"

definition hasImageExtension :: "URL \<Rightarrow> bool" where
  "hasImageExtension urlObj \<longleftrightarrow>
     list_ex (\<lambda>ext. endsWith (toLowerCase (pathname urlObj)) ext) imageExtensions"

definition validateImageUrl :: "platform \<Rightarrow> string \<Rightarrow> bool" where
  "validateImageUrl pf url' =
     (if url' = [] then False
      else case URL_parse pf url' of
             None \<Rightarrow> False
           | Some urlObj \<Rightarrow>
               if protocol urlObj \<notin> set [''http:'', ''https:''] then False
               else hasImageExtension urlObj \<or> hasImageQuery urlObj)"

text \<open>
  \<^verbatim>\<open>validateDownloadOptions\<close>. The tests on the type of \<^verbatim>\<open>savePath\<close> and \<^verbatim>\<open>filename\<close>
  cannot fail on the typed options of the model and are left out, and so is
  \<^verbatim>\<open>Number.isInteger\<close> on the concurrency limit, which is an integer in the model.
  Each test is guarded by the truthiness of its key, as in the source.
\<close>

definition isInteger :: "real \<Rightarrow> bool" where
  "isInteger x \<longleftrightarrow> of_int \<lfloor>x\<rfloor> = x"

record validation =
  isValid :: bool
  errors :: "string list"
  warnings :: "string list"

definition validFormats :: "string list" where
  "validFormats = [''jpeg'', ''png'', ''webp'', ''gif'', ''tiff'']"

definition validateDownloadOptions :: "options \<Rightarrow> validation" where
  "validateDownloadOptions opts =
     (let errors' =
            (if truthy_str (format opts)
                \<and> toLowerCase (default_to [] (format opts)) \<notin> set validFormats
             then [''format must be one of: '' @ join '', '' validFormats] else [])
            @ (if truthy_real (maxWidth opts)
                  \<and> (\<not> isInteger (default_to 0 (maxWidth opts))
                       \<or> default_to 0 (maxWidth opts) \<le> 0)
               then [''maxWidth must be a positive integer''] else [])
            @ (if truthy_real (maxHeight opts)
                  \<and> (\<not> isInteger (default_to 0 (maxHeight opts))
                       \<or> default_to 0 (maxHeight opts) \<le> 0)
               then [''maxHeight must be a positive integer''] else [])
            @ (if truthy_num (concurrency opts)
                  \<and> (default_to 0 (concurrency opts) < 1 \<or> default_to 0 (concurrency opts) > 10)
               then [''concurrency must be an integer between 1 and 10''] else []);
          warnings' =
            (if truthy_real (maxWidth opts) \<and> default_to 0 (maxWidth opts) > 4000
             then [''maxWidth is very large, this may consume significant memory''] else [])
            @ (if truthy_real (maxHeight opts) \<and> default_to 0 (maxHeight opts) > 4000
               then [''maxHeight is very large, this may consume significant memory''] else [])
      in \<lparr>isValid = (length errors' = 0), errors = errors', warnings = warnings'\<rparr>)"

section \<open>The batch tool (ImageDownloaderServer.handleDownloadImagesBatch of index.js)\<close>

text \<open>
  The server keeps the default configuration read from the process environment: an
  options object (with \<^verbatim>\<open>format\<close> \<^verbatim>\<open>'original'\<close> and \<^verbatim>\<open>concurrency\<close> 3 when the
  environment sets none) and the default proxy URL.
\<close>

record server =
  defaultConfig :: options
  defaultProxy :: "string option"

text \<open>A destructuring default \<^verbatim>\<open>{key = d}\<close> whose default may itself be undefined.\<close>

fun or_default :: "'a option \<Rightarrow> 'a option \<Rightarrow> 'a option" where
  "or_default None d = d"
| "or_default (Some v) d = Some v"

text \<open>
  The constructor of \<^verbatim>\<open>ImageDownloader\<close> keeps \<^verbatim>\<open>options.proxy || null\<close>; the handler
  builds a downloader of its own when a proxy is given that differs from the
  default, and uses the server's downloader otherwise.
\<close>

definition downloader_proxy :: "string option \<Rightarrow> proxy_config option" where
  "downloader_proxy p = (if truthy_str p then map_option ProxyUrl p else None)"

definition chosen_proxy :: "server \<Rightarrow> string option \<Rightarrow> proxy_config option" where
  "chosen_proxy srv proxy =
     (if truthy_str proxy \<and> proxy \<noteq> defaultProxy srv then downloader_proxy proxy
      else downloader_proxy (defaultProxy srv))"

text \<open>
  The response of the tool: the results and the three counts of its summary.
  \<^verbatim>\<open>filter\<close> skips the holes of an array.
\<close>

record batch_response =
  response_results :: "DownloadResult option list"
  summary_total :: nat
  summary_successful :: nat
  summary_failed :: nat

definition batch_response_of :: "DownloadResult option list \<Rightarrow> batch_response" where
  "batch_response_of rs =
     \<lparr>response_results = rs,
      summary_total = length rs,
      summary_successful =
        length (filter (\<lambda>r. case r of None \<Rightarrow> False | Some x \<Rightarrow> success x) rs),
      summary_failed =
        length (filter (\<lambda>r. case r of None \<Rightarrow> False | Some x \<Rightarrow> \<not> success x) rs)\<rparr>"

text \<open>
  \<^verbatim>\<open>handleDownloadImagesBatch\<close>. The arguments of the tool are the URL list, an
  options object and a proxy. The value is a pair: the items that entered the
  download pipeline, in order, and the outcome of the call: an error thrown, the
  response, or \<open>None\<close> when the call never returns.
\<close>

definition handleDownloadImagesBatch ::
  "server \<Rightarrow> platform \<Rightarrow> (nat \<Rightarrow> dl_env) \<Rightarrow> (nat \<Rightarrow> real) \<Rightarrow> (nat \<Rightarrow> nat)
     \<Rightarrow> string list \<Rightarrow> options \<Rightarrow> string option
     \<Rightarrow> nat list \<times> (js_error + batch_response) option" where
  "handleDownloadImagesBatch srv pf envs clock pick urls args proxy =
     (let savePath' = or_default (savePath args) (savePath (defaultConfig srv));
          format' = or_default (format args) (format (defaultConfig srv));
          compress' = or_default (compress args) (compress (defaultConfig srv));
          maxWidth' = or_default (maxWidth args) (maxWidth (defaultConfig srv));
          maxHeight' = or_default (maxHeight args) (maxHeight (defaultConfig srv));
          concurrency' = or_default (concurrency args) (concurrency (defaultConfig srv));
          proxy' = or_default proxy (defaultProxy srv);
          invalidUrls = filter (\<lambda>url'. \<not> validateImageUrl pf url') urls
      in if length invalidUrls > 0 then
           ([], Some (Inl (Error (''Invalid URLs found: '' @ join '', '' invalidUrls))))
         else
           let proxyConfig = chosen_proxy srv proxy';
               opts = \<lparr>savePath = savePath', filename = None,
                        format = (if format' = Some ''original'' then None else format'),
                        compress = compress', maxWidth = maxWidth', maxHeight = maxHeight',
                        quality = None, concurrency = concurrency'\<rparr>
           in (case batch_run pf proxyConfig envs clock pick urls opts of
                 Inl e \<Rightarrow> []
               | Inr st \<Rightarrow> launched st,
               case downloadBatch pf proxyConfig envs clock pick urls opts of
                 None \<Rightarrow> None
               | Some (Inl e) \<Rightarrow> Some (Inl e)
               | Some (Inr results') \<Rightarrow> Some (Inr (batch_response_of results'))))"

section \<open>Example values\<close>

text \<open>Concrete inputs at which the theorems below are evaluated.\<close>

definition sample_a :: ProgressSample where
  "sample_a = \<lparr>p_url = ''u'', p_filename = ''f'', downloadedBytes = 1024, totalBytes = 10240,
     percentage = 10, speed = 1024, timestamp = ''t1'', elapsedTime = 100,
     estimatedTimeRemaining = Some 900, averageSpeed = 10240\<rparr>"

definition sample_b :: ProgressSample where
  "sample_b = \<lparr>p_url = ''u'', p_filename = ''f'', downloadedBytes = 5120, totalBytes = 10240,
     percentage = 50, speed = 2048, timestamp = ''t2'', elapsedTime = 200,
     estimatedTimeRemaining = Some 200, averageSpeed = 25600\<rparr>"

definition sample_c :: ProgressSample where
  "sample_c = \<lparr>p_url = ''u'', p_filename = ''f'', downloadedBytes = 10240, totalBytes = 10240,
     percentage = 100, speed = 1536, timestamp = ''t3'', elapsedTime = 300,
     estimatedTimeRemaining = Some 0, averageSpeed = 34133\<rparr>"

definition tracker_with_history :: ProgressTracker where
  "tracker_with_history =
     \<lparr>progressHistory = [sample_a], startTime = Some 10, lastUpdateTime = Some 15\<rparr>"

definition batch_with_item0 :: "nat BatchProgressTracker" where
  "batch_with_item0 =
     \<lparr>totalItems = 2, completedItems = 0, activeTrackers = [(0, tracker_with_history)],
      completedTrackers = [], batchStartTime = 10\<rparr>"

text \<open>
  A platform for the examples. The URL parser knows three URLs. The path functions
  split at the last slash and the last dot, and joining drops a leading \<^verbatim>\<open>./\<close> as
  the normalisation of \<^verbatim>\<open>path.join\<close> does; they agree with Node's on the paths of
  the examples. An object literal inherits
  \<^verbatim>\<open>constructor\<close>. Sharp accepts a size that is a positive whole number and a
  quality that is a whole number from 1 to 100 (its messages are shortened here).
\<close>

definition example_URL_parse :: "string \<Rightarrow> URL option" where
  "example_URL_parse s =
     (if s = ''https://example.com/a.jpg''
        then Some \<lparr>protocol = ''https:'', pathname = ''/a.jpg'', search = []\<rparr>
      else if s = ''https://example.com/b.png''
        then Some \<lparr>protocol = ''https:'', pathname = ''/b.png'', search = []\<rparr>
      else if s = ''https://example.com/page.html''
        then Some \<lparr>protocol = ''https:'', pathname = ''/page.html'', search = []\<rparr>
      else None)"

definition example_basename :: "string \<Rightarrow> string" where
  "example_basename p = rev (takeWhile (\<lambda>c. c \<noteq> CHR ''/'') (rev p))"

definition example_path_join :: "string \<Rightarrow> string \<Rightarrow> string" where
  "example_path_join d f =
     (let p = (if d = [] then f else d @ ''/'' @ f)
      in if take 2 p = ''./'' then drop 2 p else p)"

definition example_extname :: "string \<Rightarrow> string" where
  "example_extname p =
     (let b = example_basename p;
          e = rev (takeWhile (\<lambda>c. c \<noteq> CHR ''.'') (rev b))
      in if CHR ''.'' \<notin> set b \<or> Suc (length e) = length b then [] else CHR ''.'' # e)"

definition whole_in :: "real \<Rightarrow> real \<Rightarrow> real \<Rightarrow> bool" where
  "whole_in lo hi x \<longleftrightarrow> of_int \<lfloor>x\<rfloor> = x \<and> lo \<le> x \<and> x \<le> hi"

fun positive_whole :: "real option \<Rightarrow> bool" where
  "positive_whole None = True"
| "positive_whole (Some x) = (of_int \<lfloor>x\<rfloor> = x \<and> 0 < x)"

fun example_sharp_rejects :: "sharp_call \<Rightarrow> js_error option" where
  "example_sharp_rejects (Resize width height) =
     (if \<not> positive_whole width then Some (Error ''Expected positive integer for width'')
      else if \<not> positive_whole height then Some (Error ''Expected positive integer for height'')
      else None)"
| "example_sharp_rejects (Encode (Jpeg q progressive)) =
     (if whole_in 1 100 q then None
      else Some (Error ''Expected integer between 1 and 100 for quality''))"
| "example_sharp_rejects (Encode (Webp q effort)) =
     (if whole_in 1 100 q then None
      else Some (Error ''Expected integer between 1 and 100 for quality''))"
| "example_sharp_rejects (Encode enc) = None"

definition example_platform :: platform where
  "example_platform =
     \<lparr>URL_parse = example_URL_parse,
      path_join = example_path_join,
      path_basename = example_basename,
      path_parse_dir = (\<lambda>p. rev (drop 1 (dropWhile (\<lambda>c. c \<noteq> CHR ''/'') (rev p)))),
      path_parse_name =
        (\<lambda>p. take (length (example_basename p) - length (example_extname p))
               (example_basename p)),
      path_extname = example_extname,
      inherited_property =
        (\<lambda>k. if k = ''constructor'' then Some ''function Object() { [native code] }''
             else None),
      sharp_rejects = example_sharp_rejects\<rparr>"

text \<open>
  An environment in which every effect succeeds, and one in which only the HEAD
  request of the probe fails.
\<close>

definition env_ok :: dl_env where
  "env_ok =
     \<lparr>mkdir_result = Inr (),
      head_result = Inr \<lparr>content_type = Some ''image/png'', content_length = Some 2048\<rparr>,
      date_now = ''1700000000000'',
      tracker_start = 0,
      get_progress = [],
      get_result = Inr (),
      transform_result = (\<lambda>t p. Inr ()),
      save_result = Inr (),
      stat_result = Inr 2048,
      done_at = ''2023-11-14T22:13:20.000Z''\<rparr>"

definition env_probe_fails :: dl_env where
  "env_probe_fails = env_ok\<lparr>head_result := Inl (Error ''connect ECONNREFUSED'')\<rparr>"

definition env_fetch_fails :: dl_env where
  "env_fetch_fails =
     env_ok\<lparr>get_result := Inl (Error ''Request failed with status code 404'')\<rparr>"

text \<open>The environments of a batch of three: the download of item 1 fails at the fetch.\<close>

definition example_envs :: "nat \<Rightarrow> dl_env" where
  "example_envs i = (if i = 1 then env_fetch_fails else env_ok)"

text \<open>A server with the defaults of an empty process environment.\<close>

definition example_server :: server where
  "example_server =
     \<lparr>defaultConfig =
        no_options\<lparr>savePath := Some ''./downloads'', format := Some ''original'',
          compress := Some False, concurrency := Some 3\<rparr>,
      defaultProxy = None\<rparr>"

text \<open>
  An environment that tells the paths of a download apart: the stream pipeline
  succeeds only through a transformer whose encoder is JPEG at quality 80, and the
  plain save fails.
\<close>

definition env_jpeg_only :: dl_env where
  "env_jpeg_only =
     env_ok\<lparr>transform_result :=
              (\<lambda>t p. if output_encoder t = Some (Jpeg 80 True) then Inr ()
                     else Inl (Error ''not a JPEG transformer'')),
            save_result := Inl (Error ''saved without processing'')\<rparr>"

section \<open>Evaluation of the example values\<close>

lemma example_platform_fields:
  "URL_parse example_platform = example_URL_parse"
  "path_join example_platform = example_path_join"
  "path_basename example_platform = example_basename"
  "path_parse_dir example_platform p
     = rev (drop 1 (dropWhile (\<lambda>c. c \<noteq> CHR ''/'') (rev p)))"
  "path_parse_name example_platform p
     = take (length (example_basename p) - length (example_extname p)) (example_basename p)"
  "path_extname example_platform = example_extname"
  "inherited_property example_platform k
     = (if k = ''constructor'' then Some ''function Object() { [native code] }'' else None)"
  "sharp_rejects example_platform = example_sharp_rejects"
  by (simp_all add: example_platform_def)

lemma example_info_ok:
  "getImageInfo example_platform None env_ok
     = \<lparr>info_contentType = ''image/png'', info_contentLength = 2048\<rparr>"
  by (simp add: getImageInfo_def createAxiosConfig_def env_ok_def or_str_def)

lemma example_name_webp:
  "generateFilename example_platform ''1700000000000'' ''https://example.com/a.jpg''
     ''image/png'' (Some ''webp'') = Inr ''a_1700000000000.webp''"
  by (simp add: generateFilename_def example_platform_fields example_URL_parse_def or_str_def
      example_basename_def example_extname_def)

lemma example_join_webp:
  "path_join example_platform ''./downloads'' ''a_1700000000000.webp''
     = ''downloads/a_1700000000000.webp''"
  by (simp add: example_platform_fields example_path_join_def)

lemma example_transformer_webp:
  "createTransformer example_platform
     (no_options\<lparr>format := Some ''webp'', compress := None, maxWidth := None,
        maxHeight := None\<rparr>)
   = Inr \<lparr>resize = None, output_encoder = Some (Webp 95 4)\<rparr>"
  by (simp add: createTransformer_def applyFormat_def toLowerCase_def lower_char_def
      apply_resize_def sharp_def sharp_apply_def whole_in_def example_platform_fields
      no_options_def)

lemma example_final_webp:
  "getFinalOutputPath example_platform ''downloads/a_1700000000000.webp'' (Some ''webp'')
     = ''downloads/a_1700000000000.webp''"
  by (simp add: getFinalOutputPath_def example_platform_fields example_path_join_def
      example_basename_def example_extname_def)

lemma example_stream_webp:
  "processStream example_platform (transform_result env_ok) ''downloads/a_1700000000000.webp''
     (no_options\<lparr>format := Some ''webp'', compress := None, maxWidth := None,
        maxHeight := None\<rparr>)
   = Inr ''downloads/a_1700000000000.webp''"
  unfolding processStream_def example_transformer_webp
  by (simp add: example_final_webp env_ok_def processing_failed_def no_options_def)

lemma example_basename_webp:
  "path_basename example_platform ''downloads/a_1700000000000.webp'' = ''a_1700000000000.webp''"
  by (simp add: example_platform_fields example_basename_def)

lemma example_env_ok_fields:
  "mkdir_result env_ok = Inr ()" "date_now env_ok = ''1700000000000''"
  "get_result env_ok = Inr ()" "save_result env_ok = Inr ()" "stat_result env_ok = Inr 2048"
  "done_at env_ok = ''2023-11-14T22:13:20.000Z''"
  by (simp_all add: env_ok_def)

section \<open>Properties of the gate\<close>

lemma acquire_smax [simp]: "smax (snd (acquire w s)) = smax s"
  by (simp add: acquire_def)

lemma release_smax [simp]: "smax (snd (release s)) = smax s"
  by (simp add: release_def Let_def split: list.splits)

lemma gate_step_inv:
  assumes "gate_step (s, hs) x = Some ((s', hs'), e)"
    and "current s = int (length hs)" and "current s \<le> smax s"
  shows "current s' = int (length hs') \<and> current s' \<le> smax s' \<and> smax s' = smax s
     \<and> queue s @ suspended_of [e] = resumed_of [e] @ queue s'"
proof (cases x)
  case (Acquire w)
  with assms show ?thesis
    by (auto simp: acquire_def split: if_splits)
next
  case (Release h)
  with assms have mem: "h \<in> set hs" by (auto split: if_splits)
  then obtain n where "length hs = Suc n" by (cases hs) auto
  with mem have "int (length (remove1 h hs)) = int (length hs) - 1"
    by (simp add: length_remove1)
  with assms Release mem show ?thesis
    by (auto simp: release_def Let_def split: list.splits)
qed

lemma suspended_of_append [simp]: "suspended_of (xs @ ys) = suspended_of xs @ suspended_of ys"
  by (induction xs rule: suspended_of.induct) auto

lemma resumed_of_append [simp]: "resumed_of (xs @ ys) = resumed_of xs @ resumed_of ys"
  by (induction xs rule: resumed_of.induct) auto

lemma gate_run_inv:
  assumes "gate_run (s, hs) ops = Some ((s', hs'), evs)"
    and "current s = int (length hs)" and "current s \<le> smax s"
  shows "current s' = int (length hs') \<and> current s' \<le> smax s' \<and> smax s' = smax s
     \<and> queue s @ suspended_of evs = resumed_of evs @ queue s'"
  using assms
proof (induction ops arbitrary: s hs evs)
  case Nil
  then show ?case by simp
next
  case (Cons x xs)
  from Cons.prems(1) obtain s1 hs1 e es where
    st: "gate_step (s, hs) x = Some ((s1, hs1), e)" and
    rn: "gate_run (s1, hs1) xs = Some ((s', hs'), es)" and ev: "evs = e # es"
    by (auto split: option.splits prod.splits)
  from gate_step_inv[OF st Cons.prems(2,3)]
  have i1: "current s1 = int (length hs1)" "current s1 \<le> smax s1" "smax s1 = smax s"
    "queue s @ suspended_of [e] = resumed_of [e] @ queue s1" by auto
  from Cons.IH[OF rn i1(1,2)]
  have i2: "current s' = int (length hs')" "current s' \<le> smax s'" "smax s' = smax s1"
    "queue s1 @ suspended_of es = resumed_of es @ queue s'" by auto
  have "queue s @ suspended_of (e # es) = (queue s @ suspended_of [e]) @ suspended_of es"
    using suspended_of_append[of "[e]" es] by simp
  also have "\<dots> = resumed_of [e] @ (queue s1 @ suspended_of es)" using i1(4) by simp
  also have "\<dots> = resumed_of (e # es) @ queue s'"
    using i2(4) resumed_of_append[of "[e]" es] by simp
  finally show ?case using i1 i2 ev by simp
qed

lemma gate_run_prefix:
  "gate_run st (xs @ ys) = Some r \<Longrightarrow> \<exists>r'. gate_run st xs = Some r'"
proof (induction xs arbitrary: st r)
  case Nil
  then show ?case by simp
next
  case (Cons x xs)
  then obtain st' e r1 where st: "gate_step st x = Some (st', e)"
    and r1: "gate_run st' (xs @ ys) = Some r1"
    by (auto split: option.splits prod.splits)
  from Cons.IH[OF r1] obtain r' where "gate_run st' xs = Some r'" by blast
  with st show ?case by (cases r') simp
qed

lemma acquire_all_suspend:
  "m < 1 \<Longrightarrow>
   gate_run (\<lparr>smax = m, current = 0, queue = q\<rparr>, []) (map Acquire ws)
     = Some ((\<lparr>smax = m, current = 0, queue = q @ ws\<rparr>, []), map Suspended ws)"
  by (induction ws arbitrary: q) (simp_all add: acquire_def)

text \<open>
  Claim C7 says that constructing the gate with a capacity below 1 fails with an
  \<^verbatim>\<open>InvalidCapacityError\<close>. The constructor makes no check: with capacity 0 it
  returns a gate.
\<close>

theorem Semaphore_no_capacity_check_counterexample:
  "Semaphore 0 = Inr \<lparr>smax = 0, current = 0, queue = ([]::nat list)\<rparr>"
  by (simp add: Semaphore_def)

text \<open>
  Claim C7, amended. Constructing the gate never fails, whatever the capacity: it
  returns a gate with the given capacity, a holder count of 0 and an empty queue.
  With a capacity below 1 the gate grants no slot: every acquire on it suspends and
  joins the queue, and no caller ever becomes a holder.
\<close>

theorem Semaphore_always_constructs:
  "Semaphore m = Inr \<lparr>smax = m, current = 0, queue = []\<rparr>
   \<and> (m < 1 \<longrightarrow>
        gate_run (fresh_gate m) (map Acquire ws)
          = Some ((\<lparr>smax = m, current = 0, queue = ws\<rparr>, []), map Suspended ws))"
  using acquire_all_suspend[of m "[]" ws] by (simp add: Semaphore_def fresh_gate_def)

theorem Semaphore_always_constructs_witness:
  "Semaphore (0::int) = Inr \<lparr>smax = 0, current = 0, queue = ([]::nat list)\<rparr>
   \<and> gate_run (fresh_gate 0) [Acquire (7::nat), Acquire 8]
       = Some ((\<lparr>smax = 0, current = 0, queue = [7, 8]\<rparr>, []), [Suspended 7, Suspended 8])"
  using Semaphore_always_constructs[of 0 "[7::nat, 8]"] by simp

section \<open>Properties of the progress trackers\<close>

text \<open>
  Claim C5. For every percentage \<open>p\<close> and elapsed time \<open>t\<close>, \<^verbatim>\<open>calculateETA\<close> returns
  \<^verbatim>\<open>null\<close> when \<open>p \<le> 0\<close> and otherwise the larger of 0 and \<open>(t / p) * 100 - t\<close>; the
  batch tracker's \<^verbatim>\<open>calculateBatchETA\<close> computes the same function, and the
  \<^verbatim>\<open>estimatedTimeRemaining\<close> of an enhanced sample is this value at the sample's
  percentage and the time since the tracker started. With 10 units elapsed at 50
  percent, 10 units remain.
\<close>

theorem calculateETA_formula:
  "calculateETA p t = (if p \<le> 0 then None else Some (max 0 ((t / p) * 100 - t)))
   \<and> calculateBatchETA p t = calculateETA p t
   \<and> estimatedTimeRemaining (fst (updateProgress now stamp progress tr))
       = calculateETA (percentage progress) (now - num_of_time (startTime tr))
   \<and> calculateETA 50 10 = Some 10
   \<and> calculateETA 50 10000 = Some 10000
   \<and> calculateETA 0 10 = None"
  by (simp add: calculateETA_def calculateBatchETA_def updateProgress_def Let_def)

theorem calculateETA_formula_witness:
  "calculateETA 25 30 = Some 90 \<and> calculateBatchETA 25 30 = Some 90
   \<and> calculateETA (-5) 30 = None \<and> calculateBatchETA 0 30 = None"
  using calculateETA_formula[of 25 30] calculateETA_formula[of "-5" 30]
    calculateETA_formula[of 0 30]
  by simp

lemma peak_speed_eq:
  "(case map speed (filter (\<lambda>p. speed p > 0) h) of [] \<Rightarrow> 0 | x # xs \<Rightarrow> fold max xs x)
   = (if \<exists>p \<in> set h. speed p > 0 then Max (speed ` set h) else 0)"
proof (cases "map speed (filter (\<lambda>p. speed p > 0) h)")
  case Nil
  then have "filter (\<lambda>p. speed p > 0) h = []" by simp
  then have "\<not> (\<exists>p \<in> set h. speed p > 0)" by (simp add: filter_empty_conv)
  with Nil show ?thesis by simp
next
  case (Cons x xs)
  let ?B = "set (map speed (filter (\<lambda>p. speed p > 0) h))"
  let ?A = "speed ` set h"
  have B: "?B = {v \<in> ?A. v > 0}" by auto
  have ne: "?B \<noteq> {}" using Cons by simp
  then obtain q where q: "q \<in> set h" "speed q > 0" using B by auto
  have finA: "finite ?A" by simp
  have neA: "?A \<noteq> {}" using q by auto
  have ge: "speed q \<le> Max ?A" using q finA by simp
  have pos: "0 < Max ?A" using q(2) ge by (rule less_le_trans)
  have "Max ?A \<in> ?B" unfolding B using Max_in[OF finA neA] pos by simp
  moreover have "\<And>y. y \<in> ?B \<Longrightarrow> y \<le> Max ?A" using B finA by auto
  ultimately have "Max ?B = Max ?A" by (intro Max_eqI) simp_all
  moreover have "fold max xs x = Max ?B"
    using Cons Max.set_eq_fold[of x xs] by simp
  ultimately show ?thesis using Cons q by auto
qed

text \<open>
  Claim C9. \<^verbatim>\<open>getSummary\<close> returns the zeroed summary when the history is empty.
  Otherwise the total time and the average speed are those of the most recent
  sample, the peak speed is the largest instantaneous speed in the history when
  some sample has a positive speed and 0 when none has, the number of updates is
  the length of the history, and the final percentage is that of the most recent
  sample.
\<close>

theorem getSummary_spec:
  "getSummary tr =
     (if progressHistory tr = [] then
        \<lparr>totalTime = 0, sum_averageSpeed = 0, peakSpeed = 0, progressUpdates = 0,
         finalPercentage = None\<rparr>
      else
        \<lparr>totalTime = elapsedTime (last (progressHistory tr)),
         sum_averageSpeed = averageSpeed (last (progressHistory tr)),
         peakSpeed =
           (if \<exists>p \<in> set (progressHistory tr). speed p > 0
            then Max (speed ` set (progressHistory tr)) else 0),
         progressUpdates = length (progressHistory tr),
         finalPercentage = Some (percentage (last (progressHistory tr)))\<rparr>)"
  using peak_speed_eq[of "progressHistory tr"]
  by (simp add: getSummary_def Let_def last_conv_nth)

theorem getSummary_spec_witness:
  "getSummary \<lparr>progressHistory = [sample_a, sample_b, sample_c], startTime = Some 0,
      lastUpdateTime = Some 300\<rparr>
   = \<lparr>totalTime = 300, sum_averageSpeed = 34133, peakSpeed = 2048, progressUpdates = 3,
      finalPercentage = Some 100\<rparr>
   \<and> getSummary \<lparr>progressHistory = [], startTime = Some 0, lastUpdateTime = Some 0\<rparr>
   = \<lparr>totalTime = 0, sum_averageSpeed = 0, peakSpeed = 0, progressUpdates = 0,
      finalPercentage = None\<rparr>"
  using getSummary_spec[of "\<lparr>progressHistory = [sample_a, sample_b, sample_c],
      startTime = Some 0, lastUpdateTime = Some 300\<rparr>"]
    getSummary_spec[of "\<lparr>progressHistory = [], startTime = Some 0, lastUpdateTime = Some 0\<rparr>"]
  by (simp add: sample_a_def sample_b_def sample_c_def)

text \<open>
  Claim C8 says that \<^verbatim>\<open>createItemTracker(id)\<close> fails with a \<^verbatim>\<open>DuplicateItemError\<close>
  when \<open>id\<close> is already active. It does not fail: on a batch tracker where item 0 is
  active with one recorded sample, creating a tracker for item 0 again returns
  normally, with a fresh tracker, and the map now holds the fresh tracker for item
  0, the earlier one being dropped.
\<close>

theorem createItemTracker_duplicate_counterexample:
  "activeTrackers batch_with_item0 = [(0, tracker_with_history)]
   \<and> progressHistory tracker_with_history = [sample_a]
   \<and> createItemTracker 20 (0::nat) batch_with_item0
   = (\<lparr>progressHistory = [], startTime = Some 20, lastUpdateTime = Some 20\<rparr>,
          \<lparr>totalItems = 2, completedItems = 0,
           activeTrackers =
             [(0, \<lparr>progressHistory = [], startTime = Some 20, lastUpdateTime = Some 20\<rparr>)],
           completedTrackers = [], batchStartTime = 10\<rparr>)"
  by (simp add: createItemTracker_def batch_with_item0_def tracker_with_history_def start_def
      new_ProgressTracker_def Let_def)

lemma length_AList_update:
  "length (AList.update k v al) =
     (if k \<in> fst ` set al then length al else Suc (length al))"
  by (induction al) auto

text \<open>
  Claim C8, amended. For every batch tracker and every id, \<^verbatim>\<open>createItemTracker(id)\<close>
  never fails. It returns a new tracker that is started at the current time with an
  empty history, and registers it as the active tracker of \<open>id\<close>; the trackers of the
  other ids and the remaining fields of the batch tracker are unchanged. When \<open>id\<close>
  was already active its earlier tracker is replaced and the number of active
  trackers stays the same; otherwise the number grows by one.
\<close>

theorem createItemTracker_registers:
  "\<exists>tracker bt'.
     createItemTracker now itemId bt = (tracker, bt')
     \<and> tracker = \<lparr>progressHistory = [], startTime = Some now, lastUpdateTime = Some now\<rparr>
     \<and> map_of (activeTrackers bt') itemId = Some tracker
     \<and> (\<forall>j. j \<noteq> itemId \<longrightarrow> map_of (activeTrackers bt') j = map_of (activeTrackers bt) j)
     \<and> length (activeTrackers bt') =
         (if itemId \<in> fst ` set (activeTrackers bt) then length (activeTrackers bt)
          else Suc (length (activeTrackers bt)))
     \<and> totalItems bt' = totalItems bt \<and> completedItems bt' = completedItems bt
     \<and> completedTrackers bt' = completedTrackers bt \<and> batchStartTime bt' = batchStartTime bt"
  by (simp add: createItemTracker_def start_def new_ProgressTracker_def Let_def
      AList.update_conv' length_AList_update)

theorem createItemTracker_registers_witness:
  "createItemTracker 20 (1::nat) batch_with_item0
   = (\<lparr>progressHistory = [], startTime = Some 20, lastUpdateTime = Some 20\<rparr>,
          \<lparr>totalItems = 2, completedItems = 0,
           activeTrackers =
             [(0, tracker_with_history),
              (1, \<lparr>progressHistory = [], startTime = Some 20, lastUpdateTime = Some 20\<rparr>)],
           completedTrackers = [], batchStartTime = 10\<rparr>)
   \<and> map_of [(0::nat, tracker_with_history),
              (1, \<lparr>progressHistory = [], startTime = Some 20, lastUpdateTime = Some 20\<rparr>)] 0
       = Some tracker_with_history"
proof -
  have c: "createItemTracker 20 (1::nat) batch_with_item0
   = (\<lparr>progressHistory = [], startTime = Some 20, lastUpdateTime = Some 20\<rparr>,
          \<lparr>totalItems = 2, completedItems = 0,
           activeTrackers =
             [(0, tracker_with_history),
              (1, \<lparr>progressHistory = [], startTime = Some 20, lastUpdateTime = Some 20\<rparr>)],
           completedTrackers = [], batchStartTime = 10\<rparr>)"
    by (simp add: createItemTracker_def batch_with_item0_def start_def new_ProgressTracker_def Let_def)
  from createItemTracker_registers[of 20 "1::nat" batch_with_item0] c
  show ?thesis by (simp add: batch_with_item0_def)
qed

section \<open>Properties of the stream transform stage\<close>

lemma toLowerCase_jpeg [simp]: "toLowerCase ''jpeg'' = ''jpeg''"
  by (simp add: toLowerCase_def lower_char_def)

lemma toLowerCase_png [simp]: "toLowerCase ''png'' = ''png''"
  by (simp add: toLowerCase_def lower_char_def)

lemma sharp_apply_encoder:
  "sharp_apply pf (Encode enc) t = Inr t' \<Longrightarrow> output_encoder t' = Some enc"
  by (auto simp: sharp_apply_def split: option.splits)

lemma createTransformer_compress_only:
  assumes "\<not> truthy_str (format opts)" and "compress opts = Some True"
  shows "createTransformer pf opts =
     and_then (apply_resize pf (maxWidth opts) (maxHeight opts) sharp)
       (\<lambda>t. sharp_apply pf (Encode (Jpeg (default_to 80 (quality opts)) True)) t)"
  using assms by (simp add: createTransformer_def applyFormat_def Let_def)

lemma file_processor_compress_only:
  assumes "\<not> truthy_str (format opts)" and "compress opts = Some True"
  shows "file_processor pf (Inr originalFormat) opts =
     and_then (apply_resize pf (maxWidth opts) (maxHeight opts) sharp)
       (\<lambda>p. applyFormat pf p originalFormat True (default_to 80 (quality opts)))"
  using assms by (simp add: file_processor_def Let_def)

lemma and_then_encoder:
  assumes "and_then r (\<lambda>t. sharp_apply pf (Encode enc) t) = Inr t'"
  shows "output_encoder t' = Some enc"
  using assms by (cases r) (auto dest: sharp_apply_encoder)

text \<open>
  Claim C10. Let the compress flag be true and no target format be requested.
  \<^item> The transformer of the streaming path is built by the resize step followed by
    the JPEG encoder at the compression quality (80 when none is given), whatever
    the format of the image. Whenever it is built, its encoder is this JPEG
    encoder; it is built whenever sharp accepts the two calls, and the error of
    sharp is thrown otherwise.
  \<^item> \<^verbatim>\<open>processStream\<close> runs the stream through this transformer into the unchanged
    output path.
  \<^item> \<^verbatim>\<open>downloadSingle\<close>, once the directory, the file name, the request
    configuration and the GET request have succeeded, takes the streaming path:
    its result is decided by the JPEG transformer of quality 80 (it passes no
    quality), by the stream pipeline through that transformer into the file path,
    and by the stat; a failure of sharp or of the pipeline is reported with the
    prefix of \<^verbatim>\<open>processStream\<close>. The plain save is not consulted.
  \<^item> In the same situation the file-based path applies the encoder of the format
    that the metadata reports: for a PNG file, \<^verbatim>\<open>processFile\<close> saves through the
    PNG encoder at compression level 9.
\<close>

theorem stream_compress_reencodes_jpeg:
  assumes "\<not> truthy_str (format opts)" and "compress opts = Some True"
  shows "createTransformer pf opts =
       and_then (apply_resize pf (maxWidth opts) (maxHeight opts) sharp)
         (\<lambda>t. sharp_apply pf (Encode (Jpeg (default_to 80 (quality opts)) True)) t)
    \<and> (\<forall>t. createTransformer pf opts = Inr t \<longrightarrow>
          output_encoder t = Some (Jpeg (default_to 80 (quality opts)) True))
    \<and> (sharp_rejects pf (Resize (maxWidth opts) (maxHeight opts)) = None
        \<and> sharp_rejects pf (Encode (Jpeg (default_to 80 (quality opts)) True)) = None \<longrightarrow>
          createTransformer pf opts =
            Inr \<lparr>resize = (if truthy_real (maxWidth opts) \<or> truthy_real (maxHeight opts)
                           then Some (maxWidth opts, maxHeight opts) else None),
                 output_encoder = Some (Jpeg (default_to 80 (quality opts)) True)\<rparr>)
    \<and> processStream pf write outputPath opts =
       processing_failed
         (and_then (createTransformer pf opts)
            (\<lambda>t. and_then (write t outputPath) (\<lambda>_. Inr outputPath)))
    \<and> (\<forall>finalFilename.
          mkdir_result env = Inr ()
          \<and> (if truthy_str (filename opts) then Inr (default_to [] (filename opts))
              else generateFilename pf (date_now env) url'
                     (info_contentType (getImageInfo pf proxyConfig env)) (format opts))
             = Inr finalFilename
          \<and> createAxiosConfig pf proxyConfig = Inr ()
          \<and> get_result env = Inr () \<longrightarrow>
          downloadSingle pf proxyConfig env url' opts =
            (case and_then (apply_resize pf (maxWidth opts) (maxHeight opts) sharp)
                    (\<lambda>t. sharp_apply pf (Encode (Jpeg 80 True)) t) of
               Inl e \<Rightarrow>
                 failed_result url' (''Image processing failed: '' @ message e) (done_at env)
             | Inr t \<Rightarrow>
                 (case transform_result env t
                         (path_join pf (default_to ''./downloads'' (savePath opts))
                            finalFilename) of
                    Inl e \<Rightarrow>
                      failed_result url' (''Image processing failed: '' @ message e)
                        (done_at env)
                  | Inr _ \<Rightarrow>
                      (case stat_result env of
                         Inl e \<Rightarrow> failed_result url' (message e) (done_at env)
                       | Inr stats_size \<Rightarrow>
                           \<lparr>success = True, url = url',
                            filePath =
                              Some (path_join pf (default_to ''./downloads'' (savePath opts))
                                      finalFilename),
                            res_filename =
                              Some (path_basename pf
                                      (path_join pf (default_to ''./downloads'' (savePath opts))
                                         finalFilename)),
                            res_size = Some stats_size,
                            contentType =
                              Some (info_contentType (getImageInfo pf proxyConfig env)),
                            error = None, downloadedAt = done_at env\<rparr>))))
    \<and> file_processor pf (Inr originalFormat) opts =
       and_then (apply_resize pf (maxWidth opts) (maxHeight opts) sharp)
         (\<lambda>p. applyFormat pf p originalFormat True (default_to 80 (quality opts)))
    \<and> file_processor pf (Inr ''png'') opts =
       and_then (apply_resize pf (maxWidth opts) (maxHeight opts) sharp)
         (\<lambda>p. sharp_apply pf (Encode (Png 9 True)) p)
    \<and> (\<forall>p. file_processor pf (Inr ''png'') opts = Inr p \<longrightarrow>
          output_encoder p = Some (Png 9 True))
    \<and> processFile pf (Inr ''png'') write outputPath opts =
       processing_failed
         (and_then (file_processor pf (Inr ''png'') opts)
            (\<lambda>p. and_then (write p outputPath) (\<lambda>_. Inr outputPath)))"
proof -
  let ?q = "default_to 80 (quality opts)"
  let ?rs = "apply_resize pf (maxWidth opts) (maxHeight opts) sharp"
  have ct: "createTransformer pf opts
      = and_then ?rs (\<lambda>t. sharp_apply pf (Encode (Jpeg ?q True)) t)"
    by (rule createTransformer_compress_only[OF assms])
  have enc: "output_encoder t = Some (Jpeg ?q True)" if "createTransformer pf opts = Inr t" for t
    using that and_then_encoder[of ?rs pf "Jpeg ?q True" t] unfolding ct by simp
  have acc: "createTransformer pf opts =
            Inr \<lparr>resize = (if truthy_real (maxWidth opts) \<or> truthy_real (maxHeight opts)
                           then Some (maxWidth opts, maxHeight opts) else None),
                 output_encoder = Some (Jpeg ?q True)\<rparr>"
    if "sharp_rejects pf (Resize (maxWidth opts) (maxHeight opts)) = None"
      and "sharp_rejects pf (Encode (Jpeg ?q True)) = None"
    unfolding ct using that by (simp add: apply_resize_def sharp_apply_def sharp_def)
  have ps: "processStream pf write outputPath opts =
       processing_failed
         (and_then (createTransformer pf opts)
            (\<lambda>t. and_then (write t outputPath) (\<lambda>_. Inr outputPath)))"
    using assms(1) by (simp add: processStream_def getFinalOutputPath_def)
  have fp: "file_processor pf (Inr originalFormat) opts =
       and_then ?rs (\<lambda>p. applyFormat pf p originalFormat True ?q)" for originalFormat
    by (rule file_processor_compress_only[OF assms])
  have fpng: "file_processor pf (Inr ''png'') opts =
       and_then ?rs (\<lambda>p. sharp_apply pf (Encode (Png 9 True)) p)"
    unfolding fp by (simp add: applyFormat_def)
  have fenc: "output_encoder p = Some (Png 9 True)"
    if "file_processor pf (Inr ''png'') opts = Inr p" for p
    using that and_then_encoder[of ?rs pf "Png 9 True" p] unfolding fpng by simp
  have pfile: "processFile pf (Inr ''png'') write outputPath opts =
       processing_failed
         (and_then (file_processor pf (Inr ''png'') opts)
            (\<lambda>p. and_then (write p outputPath) (\<lambda>_. Inr outputPath)))"
    using assms(1) by (simp add: processFile_def getFinalOutputPath_def)
  have dl: "downloadSingle pf proxyConfig env url' opts =
            (case and_then ?rs (\<lambda>t. sharp_apply pf (Encode (Jpeg 80 True)) t) of
               Inl e \<Rightarrow>
                 failed_result url' (''Image processing failed: '' @ message e) (done_at env)
             | Inr t \<Rightarrow>
                 (case transform_result env t
                         (path_join pf (default_to ''./downloads'' (savePath opts))
                            finalFilename) of
                    Inl e \<Rightarrow>
                      failed_result url' (''Image processing failed: '' @ message e)
                        (done_at env)
                  | Inr _ \<Rightarrow>
                      (case stat_result env of
                         Inl e \<Rightarrow> failed_result url' (message e) (done_at env)
                       | Inr stats_size \<Rightarrow>
                           \<lparr>success = True, url = url',
                            filePath =
                              Some (path_join pf (default_to ''./downloads'' (savePath opts))
                                      finalFilename),
                            res_filename =
                              Some (path_basename pf
                                      (path_join pf (default_to ''./downloads'' (savePath opts))
                                         finalFilename)),
                            res_size = Some stats_size,
                            contentType =
                              Some (info_contentType (getImageInfo pf proxyConfig env)),
                            error = None, downloadedAt = done_at env\<rparr>)))"
    if mk: "mkdir_result env = Inr ()"
      and nm: "(if truthy_str (filename opts) then Inr (default_to [] (filename opts))
              else generateFilename pf (date_now env) url'
                     (info_contentType (getImageInfo pf proxyConfig env)) (format opts))
             = Inr finalFilename"
      and cfg: "createAxiosConfig pf proxyConfig = Inr ()"
      and get: "get_result env = Inr ()"
    for finalFilename
  proof -
    let ?o = "no_options\<lparr>format := format opts, compress := compress opts,
                   maxWidth := maxWidth opts, maxHeight := maxHeight opts\<rparr>"
    let ?fp = "path_join pf (default_to ''./downloads'' (savePath opts)) finalFilename"
    let ?T = "and_then ?rs (\<lambda>t. sharp_apply pf (Encode (Jpeg 80 True)) t)"
    have o: "\<not> truthy_str (format ?o)" "compress ?o = Some True"
      using assms by (simp_all add: no_options_def)
    have c2: "createTransformer pf ?o = ?T"
      using createTransformer_compress_only[OF o, of pf] by (simp add: no_options_def)
    have str: "processStream pf (transform_result env) ?fp ?o
        = processing_failed (and_then ?T
            (\<lambda>t. and_then (transform_result env t ?fp) (\<lambda>_. Inr ?fp)))"
      using o(1) by (simp add: processStream_def getFinalOutputPath_def c2 Let_def)
    have route: "truthy_str (format opts) \<or> truthy_bool (compress opts)
            \<or> truthy_real (maxWidth opts) \<or> truthy_real (maxHeight opts)"
      using assms(2) by simp
    have body: "download_try pf proxyConfig env url' opts =
        and_then (processing_failed (and_then ?T
            (\<lambda>t. and_then (transform_result env t ?fp) (\<lambda>_. Inr ?fp))))
          (\<lambda>finalPath. and_then (stat_result env) (\<lambda>stats_size.
             Inr \<lparr>success = True, url = url', filePath = Some finalPath,
                  res_filename = Some (path_basename pf finalPath),
                  res_size = Some stats_size,
                  contentType = Some (info_contentType (getImageInfo pf proxyConfig env)),
                  error = None, downloadedAt = done_at env\<rparr>))"
      unfolding download_try_def Let_def
      using mk nm cfg get route str by (simp add: ensureDirectory_def)
    show ?thesis
      unfolding downloadSingle_def body
      by (cases ?T; cases "stat_result env")
         (auto simp: processing_failed_def split: sum.splits)
  qed
  show ?thesis using ct enc acc ps dl fp fpng fenc pfile by blast
qed


theorem stream_compress_reencodes_jpeg_witness:
  "createTransformer example_platform
     (no_options\<lparr>compress := Some True, quality := Some 60, maxWidth := Some 800\<rparr>)
     = Inr \<lparr>resize = Some (Some 800, None), output_encoder = Some (Jpeg 60 True)\<rparr>
   \<and> downloadSingle example_platform None env_jpeg_only ''https://example.com/b.png''
       (no_options\<lparr>compress := Some True, quality := Some 60, maxWidth := Some 800\<rparr>)
     = \<lparr>success = True, url = ''https://example.com/b.png'',
        filePath = Some ''downloads/b_1700000000000.png'',
        res_filename = Some ''b_1700000000000.png'', res_size = Some 2048,
        contentType = Some ''image/png'', error = None,
        downloadedAt = ''2023-11-14T22:13:20.000Z''\<rparr>
   \<and> file_processor example_platform (Inr ''png'')
       (no_options\<lparr>compress := Some True, quality := Some 60, maxWidth := Some 800\<rparr>)
     = Inr \<lparr>resize = Some (Some 800, None), output_encoder = Some (Png 9 True)\<rparr>"
proof -
  let ?opts = "no_options\<lparr>compress := Some True, quality := Some 60, maxWidth := Some 800\<rparr>"
  let ?url = "''https://example.com/b.png''"
  have a: "\<not> truthy_str (format ?opts)" by (simp add: no_options_def)
  have b: "compress ?opts = Some True" by simp
  note c10 = stream_compress_reencodes_jpeg[OF a b, of example_platform "\<lambda>t p. Inr ()"
      "''out.png''" env_jpeg_only ?url None "''png''"]
  note c10_accepted = c10[THEN conjunct2, THEN conjunct2, THEN conjunct1]
  note c10_download = c10[THEN conjunct2, THEN conjunct2, THEN conjunct2, THEN conjunct2,
      THEN conjunct1, rule_format]
  note c10_png = c10[THEN conjunct2, THEN conjunct2, THEN conjunct2, THEN conjunct2,
      THEN conjunct2, THEN conjunct2, THEN conjunct1]
  have r1: "sharp_rejects example_platform (Resize (maxWidth ?opts) (maxHeight ?opts)) = None"
    by (simp add: example_platform_def no_options_def)
  have r2: "sharp_rejects example_platform (Encode (Jpeg (default_to 80 (quality ?opts)) True))
      = None"
    by (simp add: example_platform_def no_options_def whole_in_def)
  have r3: "sharp_rejects example_platform (Encode (Jpeg 80 True)) = None"
    by (simp add: example_platform_def whole_in_def)
  have r4: "sharp_rejects example_platform (Encode (Png 9 True)) = None"
    by (simp add: example_platform_def)
  have rs: "apply_resize example_platform (maxWidth ?opts) (maxHeight ?opts) sharp
      = Inr \<lparr>resize = Some (Some 800, None), output_encoder = None\<rparr>"
    using r1 by (simp add: apply_resize_def sharp_apply_def sharp_def no_options_def)
  have ct: "createTransformer example_platform ?opts
     = Inr \<lparr>resize = Some (Some 800, None), output_encoder = Some (Jpeg 60 True)\<rparr>"
    using c10_accepted r1 r2 by (simp add: no_options_def)
  have fp: "file_processor example_platform (Inr ''png'') ?opts
     = Inr \<lparr>resize = Some (Some 800, None), output_encoder = Some (Png 9 True)\<rparr>"
    using c10_png rs r4 by (simp add: sharp_apply_def)
  have mk: "mkdir_result env_jpeg_only = Inr ()"
    by (simp add: env_jpeg_only_def env_ok_def)
  have nm: "(if truthy_str (filename ?opts) then Inr (default_to [] (filename ?opts))
             else generateFilename example_platform (date_now env_jpeg_only) ?url
                    (info_contentType (getImageInfo example_platform None env_jpeg_only))
                    (format ?opts))
            = Inr ''b_1700000000000.png''"
    by (simp add: no_options_def env_jpeg_only_def env_ok_def getImageInfo_def
        createAxiosConfig_def generateFilename_def example_platform_def example_URL_parse_def
        or_str_def example_basename_def example_extname_def typeMap_lookup_def typeMap_def)
  have cfg: "createAxiosConfig example_platform None = Inr ()"
    by (simp add: createAxiosConfig_def)
  have get: "get_result env_jpeg_only = Inr ()"
    by (simp add: env_jpeg_only_def env_ok_def)
  note c10_result = c10_download[OF conjI[OF mk conjI[OF nm conjI[OF cfg get]]]]
  have dl: "downloadSingle example_platform None env_jpeg_only ?url ?opts
     = \<lparr>success = True, url = ?url,
        filePath = Some ''downloads/b_1700000000000.png'',
        res_filename = Some ''b_1700000000000.png'', res_size = Some 2048,
        contentType = Some ''image/png'', error = None,
        downloadedAt = ''2023-11-14T22:13:20.000Z''\<rparr>"
    unfolding c10_result using rs r3
    by (simp add: sharp_apply_def env_jpeg_only_def env_ok_def no_options_def
        example_platform_def example_path_join_def example_basename_def getImageInfo_def
        createAxiosConfig_def or_str_def)
  from ct dl fp show ?thesis by simp
qed

section \<open>Properties of the single download\<close>

lemma and_then_if: "and_then r f = (if isl r then Inl (projl r) else f (projr r))"
  by (cases r) simp_all

lemma ensureDirectory_if:
  "ensureDirectory mk d =
     (if isl mk then Inl (Error (''Failed to create directory '' @ d @ '': '' @ message (projl mk)))
      else Inr (projr mk))"
  by (cases mk) (simp_all add: ensureDirectory_def)

lemma download_try_flat:
  "download_try pf proxyConfig env url' opts =
     (let savePath' = default_to ''./downloads'' (savePath opts);
          imageInfo = getImageInfo pf proxyConfig env;
          name = (if truthy_str (filename opts) then Inr (default_to [] (filename opts))
                  else generateFilename pf (date_now env) url' (info_contentType imageInfo)
                         (format opts));
          filePath' = path_join pf savePath' (projr name);
          cfg = createAxiosConfig pf proxyConfig;
          out = (if truthy_str (format opts) \<or> truthy_bool (compress opts)
                    \<or> truthy_real (maxWidth opts) \<or> truthy_real (maxHeight opts)
                 then processStream pf (transform_result env) filePath'
                        (no_options\<lparr>format := format opts, compress := compress opts,
                           maxWidth := maxWidth opts, maxHeight := maxHeight opts\<rparr>)
                 else and_then (save_result env) (\<lambda>_. Inr filePath'))
      in if isl (mkdir_result env) then
           Inl (Error (''Failed to create directory '' @ savePath' @ '': ''
                  @ message (projl (mkdir_result env))))
         else if isl name then Inl (projl name)
         else if isl cfg then Inl (projl cfg)
         else if isl (get_result env) then Inl (projl (get_result env))
         else if isl out then Inl (projl out)
         else if isl (stat_result env) then Inl (projl (stat_result env))
         else Inr \<lparr>success = True, url = url', filePath = Some (projr out),
                res_filename = Some (path_basename pf (projr out)),
                res_size = Some (projr (stat_result env)),
                contentType = Some (info_contentType imageInfo),
                error = None, downloadedAt = done_at env\<rparr>)"
  unfolding download_try_def Let_def and_then_if ensureDirectory_if
  by simp


lemma getImageInfo_probe_fails:
  "isl (head_result env) \<Longrightarrow>
   getImageInfo pf proxyConfig env = \<lparr>info_contentType = ''image/jpeg'', info_contentLength = 0\<rparr>"
  by (cases "head_result env"; cases "createAxiosConfig pf proxyConfig")
     (simp_all add: getImageInfo_def)

text \<open>
  Claim C2 says that a failure at any stage, the probe included, gives a result
  with \<^verbatim>\<open>success = false\<close>. A failure of the probe is absorbed: when only the HEAD
  request fails, the download succeeds, with the default content type.
\<close>

theorem downloadSingle_probe_failure_counterexample:
  "head_result env_probe_fails = Inl (Error ''connect ECONNREFUSED'')
   \<and> downloadSingle example_platform None env_probe_fails ''https://example.com/a.jpg'' no_options
     = \<lparr>success = True, url = ''https://example.com/a.jpg'',
        filePath = Some ''downloads/a_1700000000000.jpg'',
        res_filename = Some ''a_1700000000000.jpg'', res_size = Some 2048,
        contentType = Some ''image/jpeg'', error = None,
        downloadedAt = ''2023-11-14T22:13:20.000Z''\<rparr>"
  by (simp add: downloadSingle_def download_try_def example_platform_def env_probe_fails_def
      env_ok_def no_options_def ensureDirectory_def getImageInfo_def createAxiosConfig_def
      generateFilename_def example_URL_parse_def or_str_def example_basename_def typeMap_def
      typeMap_lookup_def example_path_join_def example_extname_def)

text \<open>
  Claim C2, amended. For every URL, every option set and every environment,
  \<^verbatim>\<open>downloadSingle\<close> returns a result object and never throws. The result keeps the
  original url. It is the failure object, with \<^verbatim>\<open>success = false\<close> and the message of
  the error, as soon as one of these steps fails, in this order: creating the save
  directory, deriving the file name from the URL (when no file name is given),
  building the request configuration, the GET request, the transform (or the plain
  save when nothing is processed), the stat of the written file. When all of them
  succeed it is the success object, with the file path, the size from the stat, the
  content type of the probe and the timestamp. A failure of the probe is not among
  the failing steps: it is replaced by the defaults (content type image/jpeg, length
  0).
\<close>

theorem downloadSingle_never_throws:
  "(let savePath' = default_to ''./downloads'' (savePath opts);
        imageInfo = getImageInfo pf proxyConfig env;
        name = (if truthy_str (filename opts) then Inr (default_to [] (filename opts))
                else generateFilename pf (date_now env) url' (info_contentType imageInfo)
                       (format opts));
        filePath' = path_join pf savePath' (projr name);
        cfg = createAxiosConfig pf proxyConfig;
        out = (if truthy_str (format opts) \<or> truthy_bool (compress opts)
                  \<or> truthy_real (maxWidth opts) \<or> truthy_real (maxHeight opts)
               then processStream pf (transform_result env) filePath'
                      (no_options\<lparr>format := format opts, compress := compress opts,
                         maxWidth := maxWidth opts, maxHeight := maxHeight opts\<rparr>)
               else and_then (save_result env) (\<lambda>_. Inr filePath'));
        r = downloadSingle pf proxyConfig env url' opts
    in url r = url' \<and> downloadedAt r = done_at env
       \<and> r = (if isl (mkdir_result env) then
                 failed_result url'
                   (''Failed to create directory '' @ savePath' @ '': ''
                      @ message (projl (mkdir_result env))) (done_at env)
               else if isl name then failed_result url' (message (projl name)) (done_at env)
               else if isl cfg then failed_result url' (message (projl cfg)) (done_at env)
               else if isl (get_result env) then
                 failed_result url' (message (projl (get_result env))) (done_at env)
               else if isl out then failed_result url' (message (projl out)) (done_at env)
               else if isl (stat_result env) then
                 failed_result url' (message (projl (stat_result env))) (done_at env)
               else \<lparr>success = True, url = url', filePath = Some (projr out),
                      res_filename = Some (path_basename pf (projr out)),
                      res_size = Some (projr (stat_result env)),
                      contentType = Some (info_contentType imageInfo),
                      error = None, downloadedAt = done_at env\<rparr>)
       \<and> (success r \<longrightarrow> filePath r \<noteq> None \<and> res_size r \<noteq> None \<and> contentType r \<noteq> None
              \<and> error r = None)
       \<and> (\<not> success r \<longrightarrow> error r \<noteq> None \<and> filePath r = None)
       \<and> (isl (head_result env) \<longrightarrow>
             imageInfo = \<lparr>info_contentType = ''image/jpeg'', info_contentLength = 0\<rparr>))"
  unfolding downloadSingle_def download_try_flat Let_def
  using getImageInfo_probe_fails[of env pf proxyConfig]
  by (simp add: failed_result_def)

lemma example_download_webp:
  "downloadSingle example_platform None env_ok ''https://example.com/a.jpg''
       (no_options\<lparr>format := Some ''webp''\<rparr>)
     = \<lparr>success = True, url = ''https://example.com/a.jpg'',
        filePath = Some ''downloads/a_1700000000000.webp'',
        res_filename = Some ''a_1700000000000.webp'', res_size = Some 2048,
        contentType = Some ''image/png'', error = None,
        downloadedAt = ''2023-11-14T22:13:20.000Z''\<rparr>"
proof -
  have o: "savePath (no_options\<lparr>format := Some ''webp''\<rparr>) = None"
    "filename (no_options\<lparr>format := Some ''webp''\<rparr>) = None"
    "format (no_options\<lparr>format := Some ''webp''\<rparr>) = Some ''webp''"
    "compress (no_options\<lparr>format := Some ''webp''\<rparr>) = None"
    "maxWidth (no_options\<lparr>format := Some ''webp''\<rparr>) = None"
    "maxHeight (no_options\<lparr>format := Some ''webp''\<rparr>) = None"
    by (simp_all add: no_options_def)
  show ?thesis
    unfolding downloadSingle_def download_try_def Let_def o
    by (simp add: example_info_ok example_name_webp example_join_webp example_stream_webp
        example_basename_webp example_env_ok_fields ensureDirectory_def createAxiosConfig_def)
qed

lemma example_name_jpg:
  "generateFilename example_platform ''1700000000000'' ''https://example.com/a.jpg''
     ''image/png'' None = Inr ''a_1700000000000.png''"
  by (simp add: generateFilename_def example_platform_fields example_URL_parse_def or_str_def
      example_basename_def example_extname_def typeMap_lookup_def typeMap_def)

theorem downloadSingle_never_throws_witness:
  "downloadSingle example_platform None env_fetch_fails ''https://example.com/a.jpg'' no_options
     = \<lparr>success = False, url = ''https://example.com/a.jpg'', filePath = None,
        res_filename = None, res_size = None, contentType = None,
        error = Some ''Request failed with status code 404'',
        downloadedAt = ''2023-11-14T22:13:20.000Z''\<rparr>
   \<and> downloadSingle example_platform None env_ok ''https://example.com/a.jpg''
       (no_options\<lparr>format := Some ''webp''\<rparr>)
     = \<lparr>success = True, url = ''https://example.com/a.jpg'',
        filePath = Some ''downloads/a_1700000000000.webp'',
        res_filename = Some ''a_1700000000000.webp'', res_size = Some 2048,
        contentType = Some ''image/png'', error = None,
        downloadedAt = ''2023-11-14T22:13:20.000Z''\<rparr>"
proof -
  note fails = downloadSingle_never_throws[of no_options example_platform None env_fetch_fails
      "''https://example.com/a.jpg''", unfolded Let_def, THEN conjunct2, THEN conjunct2,
      THEN conjunct1]
  have info: "getImageInfo example_platform None env_fetch_fails
     = \<lparr>info_contentType = ''image/png'', info_contentLength = 2048\<rparr>"
    by (simp add: getImageInfo_def createAxiosConfig_def env_fetch_fails_def env_ok_def
        or_str_def)
  have env: "mkdir_result env_fetch_fails = Inr ()"
    "date_now env_fetch_fails = ''1700000000000''"
    "get_result env_fetch_fails = Inl (Error ''Request failed with status code 404'')"
    "done_at env_fetch_fails = ''2023-11-14T22:13:20.000Z''"
    by (simp_all add: env_fetch_fails_def env_ok_def)
  have o: "savePath no_options = None" "filename no_options = None" "format no_options = None"
    by (simp_all add: no_options_def)
  have a: "downloadSingle example_platform None env_fetch_fails ''https://example.com/a.jpg''
       no_options
     = \<lparr>success = False, url = ''https://example.com/a.jpg'', filePath = None,
        res_filename = None, res_size = None, contentType = None,
        error = Some ''Request failed with status code 404'',
        downloadedAt = ''2023-11-14T22:13:20.000Z''\<rparr>"
    unfolding fails o info env
    by (simp add: example_name_jpg createAxiosConfig_def failed_result_def)
  note ok = downloadSingle_never_throws[of "no_options\<lparr>format := Some ''webp''\<rparr>"
      example_platform None env_ok "''https://example.com/a.jpg''", unfolded Let_def,
      THEN conjunct1]
  from ok a example_download_webp show ?thesis by simp
qed

section \<open>Properties of the batch download\<close>

subsection \<open>Writing the results array\<close>

lemma length_array_set: "length (array_set xs i v) = max (length xs) (Suc i)"
  by (auto simp: array_set_def)

lemma array_set_same: "array_set xs i v ! i = Some v"
  by (auto simp: array_set_def nth_append)

lemma array_set_other: "j \<noteq> i \<Longrightarrow> j < length xs \<Longrightarrow> array_set xs i v ! j = xs ! j"
  by (auto simp: array_set_def nth_append)

subsection \<open>The invariant of a batch\<close>

lemma start_item_fields [simp]:
  "semaphore (start_item now i st) = semaphore st"
  "in_flight (start_item now i st) = in_flight st @ [i]"
  "results (start_item now i st) = results st"
  "launched (start_item now i st) = launched st @ [i]"
  by (simp_all add: start_item_def createItemTracker_def Let_def)

lemma enter_inv:
  assumes "launch_inv c k st"
  shows "launch_inv c (Suc k) (enter now k st)"
proof -
  from assms have a: "smax (semaphore st) = c"
    "current (semaphore st) = int (length (in_flight st))"
    "queue (semaphore st) \<noteq> [] \<longrightarrow> c \<le> current (semaphore st)"
    "set (in_flight st) \<union> set (queue (semaphore st)) = {..<k}"
    "results st = []"
    unfolding launch_inv_def by blast+
  show ?thesis
  proof (cases "current (semaphore st) < smax (semaphore st)")
    case True
    with a(3) a(1) have q: "queue (semaphore st) = []" by auto
    from True have e: "enter now k st
        = start_item now k (st\<lparr>semaphore := (semaphore st)\<lparr>current := current (semaphore st) + 1\<rparr>\<rparr>)"
      by (simp add: enter_def acquire_def)
    have "set (in_flight st @ [k]) \<union> set (queue (semaphore st)) = {..<Suc k}"
      using a(4) q by (auto simp: lessThan_Suc)
    then show ?thesis
      unfolding e launch_inv_def using a(1,2,5) q by simp
  next
    case False
    then have e: "enter now k st
        = st\<lparr>semaphore := (semaphore st)\<lparr>queue := queue (semaphore st) @ [k]\<rparr>\<rparr>"
      by (simp add: enter_def acquire_def)
    have "set (in_flight st) \<union> set (queue (semaphore st) @ [k]) = {..<Suc k}"
      using a(4) by (auto simp: lessThan_Suc)
    then show ?thesis
      unfolding e launch_inv_def using a(1,2,5) False by simp
  qed
qed

lemma launch_all_inv:
  assumes "launch_inv c 0 st0"
  shows "launch_inv c k (fold (enter now) [0..<k] st0)"
proof (induction k)
  case 0
  show ?case using assms by simp
next
  case (Suc k)
  have "fold (enter now) [0..<Suc k] st0 = enter now k (fold (enter now) [0..<k] st0)"
    by simp
  with enter_inv[OF Suc] show ?case by simp
qed

lemma launch_inv_initial:
  "launch_inv c 0 \<lparr>semaphore = \<lparr>smax = c, current = 0, queue = []\<rparr>, batchTracker = bt,
                   in_flight = [], results = [], launched = []\<rparr>"
  by (simp add: launch_inv_def)

lemma launch_batch_inv:
  assumes "launch_inv c n st"
  shows "batch_inv result_of n c st"
proof -
  from assms have a: "smax (semaphore st) = c"
    "current (semaphore st) = int (length (in_flight st))"
    "queue (semaphore st) \<noteq> [] \<longrightarrow> c \<le> current (semaphore st)"
    "set (in_flight st) \<union> set (queue (semaphore st)) = {..<n}"
    "results st = []"
    unfolding launch_inv_def by blast+
  from a(4) have "\<forall>i<n. i \<in> set (in_flight st) \<or> i \<in> set (queue (semaphore st))"
    by blast
  then show ?thesis
    unfolding batch_inv_def using a by simp
qed

lemma finish_inv:
  assumes inv: "batch_inv result_of n c st" and mem: "i \<in> set (in_flight st)"
  shows "batch_inv result_of n c (finish result_of now i st)"
proof -
  from inv have sm: "smax (semaphore st) = c"
    and cur: "current (semaphore st) = int (length (in_flight st))"
    and full: "queue (semaphore st) \<noteq> [] \<longrightarrow> c \<le> current (semaphore st)"
    and dom: "set (in_flight st) \<union> set (queue (semaphore st)) \<subseteq> {..<n}"
    and len: "length (results st) \<le> n"
    and cov: "\<forall>j<n. j \<in> set (in_flight st) \<or> j \<in> set (queue (semaphore st))
            \<or> (j < length (results st) \<and> results st ! j = Some (result_of j))"
    unfolding batch_inv_def by blast+
  from mem dom have i_lt: "i < n" by auto
  from mem obtain m where m: "length (in_flight st) = Suc m" by (cases "in_flight st") auto
  with mem have lr: "length (remove1 i (in_flight st)) = m" by (simp add: length_remove1)
  let ?rs = "array_set (results st) i (result_of i)"
  let ?fl = "remove1 i (in_flight st)"
  have len': "length ?rs \<le> n" using len i_lt by (simp add: length_array_set)
  have keep: "j \<in> set ?fl" if "j \<in> set (in_flight st)" "j \<noteq> i" for j
    using that by (simp add: in_set_remove1)
  have sub: "set ?fl \<subseteq> {..<n}"
    using set_remove1_subset[of i "in_flight st"] dom by blast
  have stored: "j < length ?rs \<and> ?rs ! j = Some (result_of j)"
    if "j = i \<or> (j < length (results st) \<and> results st ! j = Some (result_of j))" for j
  proof (cases "j = i")
    case True
    then show ?thesis by (simp add: length_array_set array_set_same)
  next
    case False
    with that have "j < length (results st)" "results st ! j = Some (result_of j)" by blast+
    with False show ?thesis by (simp add: length_array_set array_set_other)
  qed
  show ?thesis
  proof (cases "queue (semaphore st)")
    case Nil
    then have f: "semaphore (finish result_of now i st)
                    = (semaphore st)\<lparr>current := current (semaphore st) - 1\<rparr>"
      "in_flight (finish result_of now i st) = ?fl"
      "results (finish result_of now i st) = ?rs"
      by (simp_all add: finish_def release_def Let_def)
    have c1: "current (semaphore st) - 1 = int (length ?fl)" using cur m lr by simp
    have c2: "\<forall>j<n. j \<in> set ?fl \<or> j \<in> set (queue (semaphore st))
            \<or> (j < length ?rs \<and> ?rs ! j = Some (result_of j))"
    proof (intro allI impI)
      fix j assume "j < n"
      with cov have "j \<in> set (in_flight st) \<or> j \<in> set (queue (semaphore st))
            \<or> (j < length (results st) \<and> results st ! j = Some (result_of j))" by simp
      then show "j \<in> set ?fl \<or> j \<in> set (queue (semaphore st))
            \<or> (j < length ?rs \<and> ?rs ! j = Some (result_of j))"
        using keep[of j] stored[of j] by (cases "j = i") blast+
    qed
    show ?thesis
      unfolding batch_inv_def f using sm c1 c2 Nil sub len' by simp
  next
    case (Cons w ws)
    then have f: "semaphore (finish result_of now i st)
                    = (semaphore st)\<lparr>queue := ws\<rparr>"
      "in_flight (finish result_of now i st) = ?fl @ [w]"
      "results (finish result_of now i st) = ?rs"
      by (simp_all add: finish_def release_def Let_def)
    have c1: "current (semaphore st) = int (length (?fl @ [w]))" using cur m lr by simp
    have c2: "\<forall>j<n. j \<in> set (?fl @ [w]) \<or> j \<in> set ws
            \<or> (j < length ?rs \<and> ?rs ! j = Some (result_of j))"
    proof (intro allI impI)
      fix j assume "j < n"
      with cov have "j \<in> set (in_flight st) \<or> j \<in> set (queue (semaphore st))
            \<or> (j < length (results st) \<and> results st ! j = Some (result_of j))" by simp
      then show "j \<in> set (?fl @ [w]) \<or> j \<in> set ws
            \<or> (j < length ?rs \<and> ?rs ! j = Some (result_of j))"
        using keep[of j] stored[of j] Cons by (cases "j = i") auto
    qed
    have c3: "c \<le> current (semaphore st)" using full Cons by simp
    have c4: "set (?fl @ [w]) \<union> set ws \<subseteq> {..<n}" using sub dom Cons by auto
    show ?thesis
      unfolding batch_inv_def f using sm c1 c2 c3 c4 len' by simp
  qed
qed

lemma run_batch_inv:
  "batch_inv result_of n c st \<Longrightarrow>
   batch_inv result_of n c (run_batch result_of clock pick t st)
   \<and> in_flight (run_batch result_of clock pick t st) = []"
proof (induction result_of clock pick t st rule: run_batch.induct)
  case (1 result_of clock pick t st)
  show ?case
  proof (cases "in_flight st = []")
    case True
    with "1.prems" show ?thesis by (simp add: run_batch.simps[of _ _ _ _ st])
  next
    case False
    then have mem: "in_flight st ! (pick t mod length (in_flight st)) \<in> set (in_flight st)"
      by simp
    from finish_inv[OF "1.prems" mem]
    have "batch_inv result_of n c
            (finish result_of (clock (Suc t))
               (in_flight st ! (pick t mod length (in_flight st))) st)" .
    from "1.IH"[OF False this] False show ?thesis
      by (simp add: run_batch.simps[of _ _ _ t st])
  qed
qed

lemma batch_inv_final:
  assumes "batch_inv result_of n c st" and "in_flight st = []" and "queue (semaphore st) = []"
  shows "length (results st) = n
     \<and> (\<forall>i<n. results st ! i = Some (result_of i))"
proof -
  from assms have len: "length (results st) \<le> n"
    and cov: "\<forall>i<n. i < length (results st) \<and> results st ! i = Some (result_of i)"
    unfolding batch_inv_def by auto
  have "n \<le> length (results st)"
  proof (cases n)
    case 0
    then show ?thesis by simp
  next
    case (Suc k)
    with cov have "k < length (results st)" by simp
    with Suc show ?thesis by simp
  qed
  with len cov show ?thesis by simp
qed

lemma batch_inv_no_deadlock:
  assumes "batch_inv result_of n c st" and "in_flight st = []" and "1 \<le> c"
  shows "queue (semaphore st) = []"
  using assms unfolding batch_inv_def by auto

subsection \<open>Occupancy of the pipeline\<close>

lemma batch_reachable_occupancy:
  assumes "batch_reachable result_of c st" and "0 \<le> c"
  shows "smax (semaphore st) = c \<and> current (semaphore st) = int (length (in_flight st))
     \<and> current (semaphore st) \<le> c"
  using assms
proof (induction rule: batch_reachable.induct)
  case (initial bt)
  then show ?case by simp
next
  case (entered st now index)
  then show ?case
    by (cases "current (semaphore st) < smax (semaphore st)")
       (simp_all add: enter_def acquire_def)
next
  case (finished st index now)
  from finished.hyps(2) obtain m where m: "length (in_flight st) = Suc m"
    by (cases "in_flight st") auto
  with finished.hyps(2) have lr: "length (remove1 index (in_flight st)) = m"
    by (simp add: length_remove1)
  from finished.IH[OF finished.prems] m lr show ?case
    by (cases "queue (semaphore st)") (simp_all add: finish_def release_def Let_def)
qed

lemma fold_enter_reachable:
  "batch_reachable result_of c st \<Longrightarrow> batch_reachable result_of c (fold (enter now) ks st)"
  by (induction ks arbitrary: st) (simp_all add: batch_reachable.entered)

lemma run_batch_reachable:
  "batch_reachable result_of c st \<Longrightarrow>
   batch_reachable result_of c (run_batch result_of clock pick t st)"
proof (induction result_of clock pick t st rule: run_batch.induct)
  case (1 result_of clock pick t st)
  show ?case
  proof (cases "in_flight st = []")
    case True
    with "1.prems" show ?thesis by (simp add: run_batch.simps[of _ _ _ _ st])
  next
    case False
    then have "in_flight st ! (pick t mod length (in_flight st)) \<in> set (in_flight st)"
      by simp
    from batch_reachable.finished[OF "1.prems" this]
    have "batch_reachable result_of c
            (finish result_of (clock (Suc t))
               (in_flight st ! (pick t mod length (in_flight st))) st)" .
    from "1.IH"[OF False this] False show ?thesis
      by (simp add: run_batch.simps[of _ _ _ t st])
  qed
qed

subsection \<open>The results of a batch\<close>

lemma downloadSingle_url: "url (downloadSingle pf proxyConfig env url' opts) = url'"
proof (cases "download_try pf proxyConfig env url' opts")
  case (Inl e)
  then show ?thesis by (simp add: downloadSingle_def failed_result_def)
next
  case (Inr r)
  then have "url r = url'"
    unfolding download_try_flat Let_def by (auto split: if_splits)
  with Inr show ?thesis by (simp add: downloadSingle_def)
qed

text \<open>
  Claim C1. For every list of URLs, every option set and every order in which the
  downloads complete: when \<^verbatim>\<open>downloadBatch\<close> returns, its result list has the length
  of the URL list, and the entry at each position \<open>i\<close> is the result of
  \<^verbatim>\<open>downloadSingle\<close> for the URL at position \<open>i\<close>, whose \<^verbatim>\<open>url\<close> is that URL. It does
  return whenever the concurrency limit is at least 1 (the default 3 included).
\<close>

theorem downloadBatch_preserves_order:
  "(1 \<le> default_to 3 (concurrency opts) \<longrightarrow>
      (\<exists>rs. downloadBatch pf proxyConfig envs clock pick urls opts = Some (Inr rs)))
   \<and> (\<forall>rs. downloadBatch pf proxyConfig envs clock pick urls opts = Some (Inr rs) \<longrightarrow>
         length rs = length urls
         \<and> (\<forall>i<length urls.
               rs ! i = Some (downloadSingle pf proxyConfig (envs i) (urls ! i)
                               (opts\<lparr>concurrency := None\<rparr>))
               \<and> (\<exists>r. rs ! i = Some r \<and> url r = urls ! i)))"
proof -
  let ?c = "default_to 3 (concurrency opts)"
  let ?n = "length urls"
  let ?res = "\<lambda>index. downloadSingle pf proxyConfig (envs index) (urls ! index)
                (opts\<lparr>concurrency := None\<rparr>)"
  let ?st0 = "\<lparr>semaphore = \<lparr>smax = ?c, current = 0, queue = []\<rparr>,
                batchTracker = new_BatchProgressTracker (clock 0) ?n,
                in_flight = [], results = [], launched = []\<rparr>"
  let ?st1 = "fold (enter (clock 0)) [0..<?n] ?st0"
  let ?fin = "run_batch ?res clock pick 0 ?st1"
  have run: "batch_run pf proxyConfig envs clock pick urls opts = Inr ?fin"
    by (simp add: batch_run_def Semaphore_def Let_def)
  have "launch_inv ?c ?n ?st1"
    by (rule launch_all_inv[OF launch_inv_initial])
  then have "batch_inv ?res ?n ?c ?st1" by (rule launch_batch_inv)
  from run_batch_inv[OF this, of clock pick 0]
  have inv: "batch_inv ?res ?n ?c ?fin" and idle: "in_flight ?fin = []" by blast+
  have db: "downloadBatch pf proxyConfig envs clock pick urls opts
      = (if queue (semaphore ?fin) = [] then Some (Inr (results ?fin)) else None)"
    by (simp add: downloadBatch_def run)
  have returns: "\<exists>rs. downloadBatch pf proxyConfig envs clock pick urls opts = Some (Inr rs)"
    if "1 \<le> ?c"
    using batch_inv_no_deadlock[OF inv idle that] db by simp
  have ordered: "length rs = ?n
         \<and> (\<forall>i<?n. rs ! i = Some (?res i) \<and> (\<exists>r. rs ! i = Some r \<and> url r = urls ! i))"
    if "downloadBatch pf proxyConfig envs clock pick urls opts = Some (Inr rs)" for rs
  proof -
    from that db have q: "queue (semaphore ?fin) = []" and rs: "rs = results ?fin"
      by (auto split: if_splits)
    from batch_inv_final[OF inv idle q] rs
    have "length rs = ?n" and all: "\<forall>i<?n. rs ! i = Some (?res i)" by simp_all
    then show ?thesis by (simp add: downloadSingle_url)
  qed
  from returns ordered show ?thesis by blast
qed


lemma list3: "length xs = 3 \<Longrightarrow> xs = [xs ! 0, xs ! 1, xs ! 2]"
  by (cases xs; cases "tl xs"; cases "tl (tl xs)") auto

lemma example_batch_options:
  "savePath (no_options\<lparr>concurrency := Some 2, concurrency := None\<rparr>) = None"
  "filename (no_options\<lparr>concurrency := Some 2, concurrency := None\<rparr>) = None"
  "format (no_options\<lparr>concurrency := Some 2, concurrency := None\<rparr>) = None"
  "compress (no_options\<lparr>concurrency := Some 2, concurrency := None\<rparr>) = None"
  "maxWidth (no_options\<lparr>concurrency := Some 2, concurrency := None\<rparr>) = None"
  "maxHeight (no_options\<lparr>concurrency := Some 2, concurrency := None\<rparr>) = None"
  by (simp_all add: no_options_def)

lemma example_info_fetch_fails:
  "getImageInfo example_platform None env_fetch_fails
     = \<lparr>info_contentType = ''image/png'', info_contentLength = 2048\<rparr>"
  by (simp add: getImageInfo_def createAxiosConfig_def env_fetch_fails_def env_ok_def or_str_def)

lemma example_env_fetch_fails_fields:
  "mkdir_result env_fetch_fails = Inr ()" "date_now env_fetch_fails = ''1700000000000''"
  "get_result env_fetch_fails = Inl (Error ''Request failed with status code 404'')"
  "done_at env_fetch_fails = ''2023-11-14T22:13:20.000Z''"
  by (simp_all add: env_fetch_fails_def env_ok_def)

lemma example_name_b:
  "generateFilename example_platform ''1700000000000'' ''https://example.com/b.png''
     ''image/png'' None = Inr ''b_1700000000000.png''"
  by (simp add: generateFilename_def example_platform_fields example_URL_parse_def or_str_def
      example_basename_def example_extname_def typeMap_lookup_def typeMap_def)

lemma example_name_nonsense:
  "generateFilename example_platform ''1700000000000'' ''nonsense'' ''image/png'' None
     = Inl (Error ''Invalid URL'')"
  by (simp add: generateFilename_def example_platform_fields example_URL_parse_def)

lemma example_join_a:
  "path_join example_platform ''./downloads'' ''a_1700000000000.png''
     = ''downloads/a_1700000000000.png''"
  by (simp add: example_platform_fields example_path_join_def)

lemma example_basename_a:
  "path_basename example_platform ''downloads/a_1700000000000.png'' = ''a_1700000000000.png''"
  by (simp add: example_platform_fields example_basename_def)

lemma example_single_a:
  "downloadSingle example_platform None env_ok ''https://example.com/a.jpg''
     (no_options\<lparr>concurrency := Some 2, concurrency := None\<rparr>)
   = \<lparr>success = True, url = ''https://example.com/a.jpg'',
      filePath = Some ''downloads/a_1700000000000.png'',
      res_filename = Some ''a_1700000000000.png'', res_size = Some 2048,
      contentType = Some ''image/png'', error = None,
      downloadedAt = ''2023-11-14T22:13:20.000Z''\<rparr>"
  unfolding downloadSingle_def download_try_def Let_def example_batch_options
  by (simp add: example_info_ok example_name_jpg example_join_a example_basename_a
      example_env_ok_fields ensureDirectory_def createAxiosConfig_def)

lemma example_single_b:
  "downloadSingle example_platform None env_fetch_fails ''https://example.com/b.png''
     (no_options\<lparr>concurrency := Some 2, concurrency := None\<rparr>)
   = \<lparr>success = False, url = ''https://example.com/b.png'', filePath = None,
      res_filename = None, res_size = None, contentType = None,
      error = Some ''Request failed with status code 404'',
      downloadedAt = ''2023-11-14T22:13:20.000Z''\<rparr>"
  unfolding downloadSingle_def download_try_def Let_def example_batch_options
  by (simp add: example_info_fetch_fails example_name_b example_env_fetch_fails_fields
      ensureDirectory_def createAxiosConfig_def failed_result_def)

lemma example_single_c:
  "downloadSingle example_platform None env_ok ''nonsense''
     (no_options\<lparr>concurrency := Some 2, concurrency := None\<rparr>)
   = \<lparr>success = False, url = ''nonsense'', filePath = None,
      res_filename = None, res_size = None, contentType = None,
      error = Some ''Invalid URL'',
      downloadedAt = ''2023-11-14T22:13:20.000Z''\<rparr>"
  unfolding downloadSingle_def download_try_def Let_def example_batch_options
  by (simp add: example_info_ok example_name_nonsense example_env_ok_fields
      ensureDirectory_def createAxiosConfig_def failed_result_def)

theorem downloadBatch_preserves_order_witness:
  "downloadBatch example_platform None example_envs (\<lambda>t. real t) (\<lambda>t. 1)
     [''https://example.com/a.jpg'', ''https://example.com/b.png'', ''nonsense'']
     (no_options\<lparr>concurrency := Some 2\<rparr>)
   = Some (Inr
      [Some \<lparr>success = True, url = ''https://example.com/a.jpg'',
          filePath = Some ''downloads/a_1700000000000.png'',
          res_filename = Some ''a_1700000000000.png'', res_size = Some 2048,
          contentType = Some ''image/png'', error = None,
          downloadedAt = ''2023-11-14T22:13:20.000Z''\<rparr>,
       Some \<lparr>success = False, url = ''https://example.com/b.png'', filePath = None,
          res_filename = None, res_size = None, contentType = None,
          error = Some ''Request failed with status code 404'',
          downloadedAt = ''2023-11-14T22:13:20.000Z''\<rparr>,
       Some \<lparr>success = False, url = ''nonsense'', filePath = None,
          res_filename = None, res_size = None, contentType = None,
          error = Some ''Invalid URL'',
          downloadedAt = ''2023-11-14T22:13:20.000Z''\<rparr>])"
proof -
  let ?urls = "[''https://example.com/a.jpg'', ''https://example.com/b.png'', ''nonsense'']"
  let ?opts = "no_options\<lparr>concurrency := Some 2\<rparr>"
  note order = downloadBatch_preserves_order[of ?opts example_platform None example_envs
      "\<lambda>t. real t" "\<lambda>t. 1" ?urls]
  have "1 \<le> default_to 3 (concurrency ?opts)" by simp
  with order obtain rs where
    rs: "downloadBatch example_platform None example_envs (\<lambda>t. real t) (\<lambda>t. 1) ?urls ?opts
          = Some (Inr rs)" by blast
  with order have len: "length rs = 3"
    and at: "\<forall>i<3. rs ! i = Some (downloadSingle example_platform None (example_envs i)
                (?urls ! i) (?opts\<lparr>concurrency := None\<rparr>))"
    by auto
  from at have "rs ! 0 = Some (downloadSingle example_platform None env_ok
                  ''https://example.com/a.jpg'' (?opts\<lparr>concurrency := None\<rparr>))"
    and "rs ! 1 = Some (downloadSingle example_platform None env_fetch_fails
                  ''https://example.com/b.png'' (?opts\<lparr>concurrency := None\<rparr>))"
    and "rs ! 2 = Some (downloadSingle example_platform None env_ok
                  ''nonsense'' (?opts\<lparr>concurrency := None\<rparr>))"
    by (simp_all add: example_envs_def)
  with list3[OF len] have "rs = [Some (downloadSingle example_platform None env_ok
                  ''https://example.com/a.jpg'' (?opts\<lparr>concurrency := None\<rparr>)),
      Some (downloadSingle example_platform None env_fetch_fails
                  ''https://example.com/b.png'' (?opts\<lparr>concurrency := None\<rparr>)),
      Some (downloadSingle example_platform None env_ok
                  ''nonsense'' (?opts\<lparr>concurrency := None\<rparr>))]"
    by simp
  with rs show ?thesis
    unfolding example_single_a example_single_b example_single_c by simp
qed

section \<open>The gate bounds the downloads in flight\<close>

text \<open>
  Claim C3. Let the gate be constructed with a capacity \<open>m \<ge> 1\<close> and let any sequence
  of acquire and release calls run on it in which every release is made by a caller
  whose acquire has completed. Then after the sequence, and after every prefix of
  it, the holder count \<^verbatim>\<open>current\<close> equals the number of callers holding a slot and
  is at most \<open>m\<close>. A further acquire returns without suspending exactly when
  \<^verbatim>\<open>current < max\<close>, and otherwise joins the end of the queue. The callers resumed
  so far, followed by those still queued, are the callers suspended so far in the
  order of their suspension (FIFO). A release with a waiting caller resumes the head
  of the queue and leaves the holder count as it was (the slot is handed over); with
  no waiting caller it decrements the count. In a batch run on such a gate, whatever
  the interleaving of its callbacks and completions, the downloads in flight are at
  every moment as many as the holder count, hence at most \<open>m\<close>.
\<close>

theorem semaphore_bounded_fifo:
  assumes cap: "1 \<le> m"
    and run: "gate_run (fresh_gate m) ops = Some ((s, hs), evs)"
  shows "smax s = m \<and> current s = int (length hs) \<and> current s \<le> m
    \<and> (\<forall>k \<le> length ops. \<exists>s' hs' evs'.
          gate_run (fresh_gate m) (take k ops) = Some ((s', hs'), evs')
          \<and> current s' = int (length hs') \<and> current s' \<le> m)
    \<and> (\<forall>w. fst (acquire w s) = (current s < m))
    \<and> (\<forall>w. acquire w s =
          (if current s < m then (True, s\<lparr>current := current s + 1\<rparr>)
           else (False, s\<lparr>queue := queue s @ [w]\<rparr>)))
    \<and> resumed_of evs @ queue s = suspended_of evs
    \<and> release s =
          (case queue s of
             [] \<Rightarrow> (None, s\<lparr>current := current s - 1\<rparr>)
           | w # ws \<Rightarrow> (Some w, s\<lparr>queue := ws\<rparr>))
    \<and> (\<forall>result_of st. batch_reachable result_of m st \<longrightarrow>
          current (semaphore st) = int (length (in_flight st))
          \<and> int (length (in_flight st)) \<le> m)"
proof -
  have init: "current \<lparr>smax = m, current = 0, queue = []\<rparr> = int (length ([]::'a list))"
    "current \<lparr>smax = m, current = 0, queue = ([]::'a list)\<rparr> \<le> smax \<lparr>smax = m, current = 0, queue = ([]::'a list)\<rparr>"
    using cap by simp_all
  from gate_run_inv[OF run[unfolded fresh_gate_def] init]
  have fin: "current s = int (length hs)" "current s \<le> smax s" "smax s = m"
    "resumed_of evs @ queue s = suspended_of evs" by simp_all
  have pre: "\<exists>s' hs' evs'. gate_run (fresh_gate m) (take k ops) = Some ((s', hs'), evs')
          \<and> current s' = int (length hs') \<and> current s' \<le> m" for k
  proof -
    have "gate_run (fresh_gate m) (take k ops @ drop k ops) = Some ((s, hs), evs)"
      using run by simp
    from gate_run_prefix[OF this] obtain s' hs' evs' where
      r: "gate_run (fresh_gate m) (take k ops) = Some ((s', hs'), evs')" by auto
    from gate_run_inv[OF r[unfolded fresh_gate_def] init] r show ?thesis by auto
  qed
  have acq: "acquire w s =
          (if current s < m then (True, s\<lparr>current := current s + 1\<rparr>)
           else (False, s\<lparr>queue := queue s @ [w]\<rparr>))" for w
    using fin(3) by (simp add: acquire_def)
  have rel: "release s =
          (case queue s of
             [] \<Rightarrow> (None, s\<lparr>current := current s - 1\<rparr>)
           | w # ws \<Rightarrow> (Some w, s\<lparr>queue := ws\<rparr>))"
    by (simp add: release_def Let_def split: list.splits)
  have occ: "current (semaphore st) = int (length (in_flight st))
          \<and> int (length (in_flight st)) \<le> m"
    if "batch_reachable result_of m st" for result_of st
    using batch_reachable_occupancy[OF that] cap by simp
  show ?thesis using fin pre acq rel occ by simp
qed

theorem semaphore_bounded_fifo_witness:
  "gate_run (fresh_gate 2)
     [Acquire (1::nat), Acquire 2, Acquire 3, Acquire 4, Release 1, Release 3]
   = Some ((\<lparr>smax = 2, current = 2, queue = []\<rparr>, [2, 4]),
        [Proceeded 1, Proceeded 2, Suspended 3, Suspended 4,
         Released 1 (Some 3), Released 3 (Some 4)])
   \<and> current \<lparr>smax = 2, current = 2, queue = ([]::nat list)\<rparr> \<le> 2
   \<and> resumed_of [Proceeded (1::nat), Proceeded 2, Suspended 3, Suspended 4,
         Released 1 (Some 3), Released 3 (Some 4)] @ [] = [3, 4]
   \<and> in_flight (fold (enter 0) [0, 1, 2]
        \<lparr>semaphore = \<lparr>smax = 2, current = 0, queue = []\<rparr>,
         batchTracker = new_BatchProgressTracker 0 3,
         in_flight = [], results = [], launched = []\<rparr>) = [0, 1]
   \<and> int (length (in_flight (fold (enter 0) [0, 1, 2]
        \<lparr>semaphore = \<lparr>smax = 2, current = 0, queue = []\<rparr>,
         batchTracker = new_BatchProgressTracker 0 3,
         in_flight = [], results = [], launched = []\<rparr>))) \<le> 2"
proof -
  have r: "gate_run (fresh_gate 2)
     [Acquire (1::nat), Acquire 2, Acquire 3, Acquire 4, Release 1, Release 3]
   = Some ((\<lparr>smax = 2, current = 2, queue = []\<rparr>, [2, 4]),
        [Proceeded 1, Proceeded 2, Suspended 3, Suspended 4,
         Released 1 (Some 3), Released 3 (Some 4)])"
    by (simp add: fresh_gate_def acquire_def release_def)
  let ?st0 = "\<lparr>semaphore = \<lparr>smax = 2, current = 0, queue = []\<rparr>,
         batchTracker = new_BatchProgressTracker 0 3,
         in_flight = [], results = [], launched = []\<rparr>"
  have reach: "batch_reachable (\<lambda>i. failed_result [] [] []) 2 (fold (enter 0) [0, 1, 2] ?st0)"
    by (intro fold_enter_reachable batch_reachable.initial)
  have fl: "in_flight (fold (enter 0) [0, 1, 2] ?st0) = [0, 1]"
    by (simp add: enter_def acquire_def)
  from semaphore_bounded_fifo[OF _ r] r reach fl show ?thesis by simp
qed

section \<open>Properties of the batch tool\<close>

lemma sublist_join:
  "u \<in> set xs \<Longrightarrow> sublist u (join sep xs)"
proof (induction sep xs rule: join.induct)
  case (1 sep)
  then show ?case by simp
next
  case (2 sep x)
  then show ?case by simp
next
  case (3 sep x y ys)
  show ?case
  proof (cases "u = x")
    case True
    then show ?thesis by simp
  next
    case False
    with 3 have "sublist u (join sep (y # ys))" by simp
    then obtain ps ss where "join sep (y # ys) = ps @ u @ ss"
      by (auto simp: sublist_def)
    then have "join sep (x # y # ys) = (x @ sep @ ps) @ u @ ss" by simp
    then show ?thesis unfolding sublist_def by blast
  qed
qed

lemma validateImageUrl_iff:
  "validateImageUrl pf u \<longleftrightarrow>
     u \<noteq> [] \<and> (\<exists>urlObj. URL_parse pf u = Some urlObj
        \<and> (protocol urlObj = ''http:'' \<or> protocol urlObj = ''https:'')
        \<and> (hasImageExtension urlObj \<or> hasImageQuery urlObj))"
  by (cases "URL_parse pf u") (auto simp: validateImageUrl_def)

text \<open>
  Claim C4. When the URL list of the batch tool contains a URL that is not a valid
  image URL, the call throws an error whose message lists the invalid URLs, joined
  by a comma, and no item has entered the download pipeline. A URL is a valid image
  URL exactly when it is not empty, the URL parser accepts it, its scheme is http or
  https, and its lower-cased path ends in an image extension or its query contains
  one of the image hints.
\<close>

theorem batch_rejects_invalid_urls:
  assumes "\<exists>u \<in> set urls. \<not> validateImageUrl pf u"
  shows "handleDownloadImagesBatch srv pf envs clock pick urls args proxy
      = ([], Some (Inl (Error (''Invalid URLs found: ''
              @ join '', '' (filter (\<lambda>u. \<not> validateImageUrl pf u) urls)))))
    \<and> (\<forall>u \<in> set urls. \<not> validateImageUrl pf u \<longrightarrow>
          sublist u (join '', '' (filter (\<lambda>u. \<not> validateImageUrl pf u) urls)))
    \<and> (\<forall>u. validateImageUrl pf u \<longleftrightarrow>
          u \<noteq> [] \<and> (\<exists>urlObj. URL_parse pf u = Some urlObj
             \<and> (protocol urlObj = ''http:'' \<or> protocol urlObj = ''https:'')
             \<and> (hasImageExtension urlObj \<or> hasImageQuery urlObj)))"
proof -
  from assms have "filter (\<lambda>u. \<not> validateImageUrl pf u) urls \<noteq> []"
    by (simp add: filter_empty_conv)
  then have "handleDownloadImagesBatch srv pf envs clock pick urls args proxy
      = ([], Some (Inl (Error (''Invalid URLs found: ''
              @ join '', '' (filter (\<lambda>u. \<not> validateImageUrl pf u) urls)))))"
    by (simp add: handleDownloadImagesBatch_def Let_def)
  moreover have "sublist u (join '', '' (filter (\<lambda>u. \<not> validateImageUrl pf u) urls))"
    if "u \<in> set urls" "\<not> validateImageUrl pf u" for u
    using that by (intro sublist_join) simp
  ultimately show ?thesis using validateImageUrl_iff[of pf] by blast
qed

lemma example_page_invalid:
  "\<not> validateImageUrl example_platform ''https://example.com/page.html''"
  by (simp add: validateImageUrl_def example_platform_def example_URL_parse_def
      hasImageExtension_def hasImageQuery_def imageExtensions_def endsWith_def
      toLowerCase_def lower_char_def)

lemma example_a_valid:
  "validateImageUrl example_platform ''https://example.com/a.jpg''"
  by (simp add: validateImageUrl_def example_platform_def example_URL_parse_def
      hasImageExtension_def hasImageQuery_def imageExtensions_def endsWith_def
      toLowerCase_def lower_char_def)

theorem batch_rejects_invalid_urls_witness:
  "handleDownloadImagesBatch example_server example_platform example_envs real (\<lambda>t. 0)
     [''https://example.com/a.jpg'', ''https://example.com/page.html''] no_options None
   = ([], Some (Inl (Error ''Invalid URLs found: https://example.com/page.html'')))"
proof -
  have "\<exists>u \<in> set [''https://example.com/a.jpg'', ''https://example.com/page.html''].
          \<not> validateImageUrl example_platform u"
    using example_page_invalid by simp
  from batch_rejects_invalid_urls[OF this, of example_server example_envs real "\<lambda>t. 0"
      no_options None]
  show ?thesis using example_page_invalid example_a_valid by simp
qed

lemma example_b_valid:
  "validateImageUrl example_platform ''https://example.com/b.png''"
  by (simp add: validateImageUrl_def example_platform_def example_URL_parse_def
      hasImageExtension_def hasImageQuery_def imageExtensions_def endsWith_def
      toLowerCase_def lower_char_def)

lemma example_zero_run:
  "batch_run example_platform None example_envs real (\<lambda>t. 0) [''https://example.com/a.jpg'']
     \<lparr>savePath = Some ''./downloads'', filename = None, format = None,
        compress = Some False, maxWidth = None, maxHeight = None, quality = None,
        concurrency = Some 0\<rparr>
   = Inr \<lparr>semaphore = \<lparr>smax = 0, current = 0, queue = [0]\<rparr>,
          batchTracker = new_BatchProgressTracker 0 1,
          in_flight = [], results = [], launched = []\<rparr>"
  by (simp add: batch_run_def Semaphore_def enter_def acquire_def run_batch.simps)

lemma example_eleven_a:
  "success (downloadSingle example_platform None env_ok ''https://example.com/a.jpg''
     \<lparr>savePath = Some ''./downloads'', filename = None, format = None,
        compress = Some False, maxWidth = None, maxHeight = None, quality = None,
        concurrency = None\<rparr>)"
  unfolding downloadSingle_def download_try_def Let_def
  by (simp add: example_info_ok example_name_jpg example_join_a example_basename_a
      example_env_ok_fields ensureDirectory_def createAxiosConfig_def)

lemma example_eleven_b:
  "\<not> success (downloadSingle example_platform None env_fetch_fails ''https://example.com/b.png''
     \<lparr>savePath = Some ''./downloads'', filename = None, format = None,
        compress = Some False, maxWidth = None, maxHeight = None, quality = None,
        concurrency = None\<rparr>)"
  unfolding downloadSingle_def download_try_def Let_def
  by (simp add: example_info_fetch_fails example_name_b example_env_fetch_fails_fields
      ensureDirectory_def createAxiosConfig_def failed_result_def)

lemma example_eleven_run:
  "map_sum id (\<lambda>st. (semaphore st, in_flight st, launched st, map (map_option success) (results st)))
    (batch_run example_platform None example_envs real (\<lambda>t. 0)
     [''https://example.com/a.jpg'', ''https://example.com/b.png'']
     \<lparr>savePath = Some ''./downloads'', filename = None, format = None,
        compress = Some False, maxWidth = None, maxHeight = None, quality = None,
        concurrency = Some 11\<rparr>)
   = Inr (\<lparr>smax = 11, current = 0, queue = []\<rparr>, [], [0, 1], [Some True, Some False])"
  using example_eleven_a example_eleven_b
  by (simp add: batch_run_def Semaphore_def enter_def acquire_def run_batch.simps
      start_item_def createItemTracker_def finish_def release_def array_set_def
      upt_rec[of 0] upt_rec[of 1] upt_rec[of 2] example_envs_def Let_def)

text \<open>
  Claim C6 at the input \<^verbatim>\<open>{urls: ["https://example.com/a.jpg"], concurrency: 0}\<close>:
  the tool throws no error. The limit 0 reaches the semaphore, the only item stays
  suspended in its queue, nothing enters the pipeline and the call never returns.
  \<^verbatim>\<open>validateDownloadOptions\<close>, which is not called on this path, accepts the limit 0
  as well, and reports the limit 11. With the limit 11 the tool throws no error
  either: the batch of two runs on a semaphore of capacity 11 to its end.
\<close>

theorem batch_concurrency_zero_never_returns:
  "handleDownloadImagesBatch example_server example_platform example_envs real (\<lambda>t. 0)
     [''https://example.com/a.jpg''] (no_options\<lparr>concurrency := Some 0\<rparr>) None
   = ([], None)
   \<and> batch_run example_platform None example_envs real (\<lambda>t. 0) [''https://example.com/a.jpg'']
       \<lparr>savePath = Some ''./downloads'', filename = None, format = None,
          compress = Some False, maxWidth = None, maxHeight = None, quality = None,
          concurrency = Some 0\<rparr>
     = Inr \<lparr>semaphore = \<lparr>smax = 0, current = 0, queue = [0]\<rparr>,
            batchTracker = new_BatchProgressTracker 0 1,
            in_flight = [], results = [], launched = []\<rparr>
   \<and> map_sum id
       (\<lambda>st. (semaphore st, in_flight st, launched st, map (map_option success) (results st)))
       (batch_run example_platform None example_envs real (\<lambda>t. 0)
          [''https://example.com/a.jpg'', ''https://example.com/b.png'']
          \<lparr>savePath = Some ''./downloads'', filename = None, format = None,
             compress = Some False, maxWidth = None, maxHeight = None, quality = None,
             concurrency = Some 11\<rparr>)
     = Inr (\<lparr>smax = 11, current = 0, queue = []\<rparr>, [], [0, 1], [Some True, Some False])
   \<and> validateDownloadOptions (no_options\<lparr>concurrency := Some 0\<rparr>)
     = \<lparr>isValid = True, errors = [], warnings = []\<rparr>
   \<and> validateDownloadOptions (no_options\<lparr>concurrency := Some 11\<rparr>)
     = \<lparr>isValid = False, errors = [''concurrency must be an integer between 1 and 10''],
        warnings = []\<rparr>"
  using example_a_valid example_zero_run example_eleven_run
  by (simp add: handleDownloadImagesBatch_def example_server_def no_options_def
      chosen_proxy_def downloader_proxy_def downloadBatch_def validateDownloadOptions_def)

theorem batch_concurrency_zero_never_returns_witness:
  "fst (handleDownloadImagesBatch example_server example_platform example_envs real (\<lambda>t. 0)
          [''https://example.com/a.jpg''] (no_options\<lparr>concurrency := Some 0\<rparr>) None) = []
   \<and> snd (handleDownloadImagesBatch example_server example_platform example_envs real (\<lambda>t. 0)
          [''https://example.com/a.jpg''] (no_options\<lparr>concurrency := Some 0\<rparr>) None) = None
   \<and> isValid (validateDownloadOptions (no_options\<lparr>concurrency := Some 0\<rparr>))"
  using batch_concurrency_zero_never_returns by simp

end
